theory Spec2Isabelle
  imports Main
begin

section \<open>Python values used by zconcat\<close>

text \<open>
  A Python \<open>bytes\<close> object is a list of 8-bit characters.  A Python \<open>str\<close> is
  represented by its UTF-8 encoding, so that \<open>bytes.decode()\<close> is the identity on
  the well-formed byte sequences and raises on the others.
\<close>

type_synonym bytes = "char list"
type_synonym path = string

datatype exn_class =
    SignalException_SIGPIPE
  | ErrorReturnCode
  | CommandNotFound
  | IndexError
  | UnicodeDecodeError
  | ValueError
  | AttributeError
  | OSError
  | BrokenPipeError
  | KeyboardInterrupt

text \<open>
  An exception value: \<open>Exn c m\<close> is an instance of class \<open>c\<close> with \<open>str(e) = m\<close>.
  Every class above derives from Python's \<open>Exception\<close>, but \<open>KeyboardInterrupt\<close>,
  which derives from \<open>BaseException\<close> only: \<open>except Exception\<close> does not catch it.
\<close>

datatype exn = Exn exn_class string

fun str_exn :: "exn \<Rightarrow> string" where
  "str_exn (Exn c m) = m"

fun exn_is :: "exn_class \<Rightarrow> exn \<Rightarrow> bool" where
  "exn_is c (Exn c' m) = (c = c')"

fun is_Exception :: "exn \<Rightarrow> bool" where
  "is_Exception (Exn c m) = (c \<noteq> KeyboardInterrupt)"

text \<open>
  What leaves \<open>run\<close>: the \<open>KGTKException\<close> of \<open>kgtk.exceptions\<close>, constructed from its
  message, or an exception that no \<open>except\<close> clause of \<open>run\<close> has caught.
\<close>

datatype raised = KGTKException string | Uncaught exn

subsection \<open>\<open>bytes.split()\<close>, \<open>bytes.lower()\<close>, \<open>bytes.decode()\<close>\<close>

definition newline :: char where
  "newline = CHR 0x0A"

text \<open>The ASCII whitespace of \<open>bytes.split()\<close>: space, \<open>\t \n \r \x0b \x0c\<close>.\<close>

definition is_space :: "char \<Rightarrow> bool" where
  "is_space c = (c = CHR 0x20 \<or> c = CHR 0x09 \<or> c = CHR 0x0A \<or> c = CHR 0x0D
                 \<or> c = CHR 0x0B \<or> c = CHR 0x0C)"

text \<open>
  \<open>split_aux cur bs\<close> scans \<open>bs\<close> with the word \<open>cur\<close> under construction:
  a whitespace byte closes a non-empty word, runs of whitespace produce nothing.
\<close>

fun split_aux :: "bytes \<Rightarrow> bytes \<Rightarrow> bytes list" where
  "split_aux cur [] = (if cur = [] then [] else [cur])"
| "split_aux cur (c # cs) =
     (if is_space c then (if cur = [] then split_aux [] cs else cur # split_aux [] cs)
      else split_aux (cur @ [c]) cs)"

definition py_split :: "bytes \<Rightarrow> bytes list" where
  "py_split bs = split_aux [] bs"

definition lower_char :: "char \<Rightarrow> char" where
  "lower_char c =
     (let n = (of_char c :: nat) in if 65 \<le> n \<and> n \<le> 90 then char_of (n + 32) else c)"

definition py_lower :: "bytes \<Rightarrow> bytes" where
  "py_lower bs = map lower_char bs"

definition cont_byte :: "nat \<Rightarrow> bool" where
  "cont_byte b = (128 \<le> b \<and> b \<le> 191)"

text \<open>Well-formed UTF-8 (no overlong forms, no surrogates, nothing above U+10FFFF).\<close>

fun utf8_ok :: "nat list \<Rightarrow> bool" where
  "utf8_ok [] = True"
| "utf8_ok (b0 # bs) =
     (if b0 \<le> 127 then utf8_ok bs
      else if 194 \<le> b0 \<and> b0 \<le> 223 then
        (case bs of b1 # r \<Rightarrow> cont_byte b1 \<and> utf8_ok r | _ \<Rightarrow> False)
      else if 224 \<le> b0 \<and> b0 \<le> 239 then
        (case bs of
           b1 # b2 # r \<Rightarrow>
             (if b0 = 224 then 160 \<le> b1 \<and> b1 \<le> 191
              else if b0 = 237 then 128 \<le> b1 \<and> b1 \<le> 159
              else cont_byte b1) \<and> cont_byte b2 \<and> utf8_ok r
         | _ \<Rightarrow> False)
      else if 240 \<le> b0 \<and> b0 \<le> 244 then
        (case bs of
           b1 # b2 # b3 # r \<Rightarrow>
             (if b0 = 240 then 144 \<le> b1 \<and> b1 \<le> 191
              else if b0 = 244 then 128 \<le> b1 \<and> b1 \<le> 143
              else cont_byte b1) \<and> cont_byte b2 \<and> cont_byte b3 \<and> utf8_ok r
         | _ \<Rightarrow> False)
      else False)"

definition utf8_valid :: "bytes \<Rightarrow> bool" where
  "utf8_valid bs = utf8_ok (map of_char bs)"

text \<open>
  \<open>bytes.decode()\<close>.  The text of the \<open>UnicodeDecodeError\<close> is Python's; it is a
  parameter \<open>msg\<close> of the model.
\<close>

definition py_decode :: "(bytes \<Rightarrow> string) \<Rightarrow> bytes \<Rightarrow> exn + string" where
  "py_decode msg bs = (if utf8_valid bs then Inr bs else Inl (Exn UnicodeDecodeError (msg bs)))"

section \<open>The state of the run\<close>

text \<open>A file object returned by \<open>open\<close>: its number among the opened files, path and mode.\<close>

datatype fileobj = FileObj nat path string

fun fo_mode :: "fileobj \<Rightarrow> string" where
  "fo_mode (FileObj k p m) = m"

fun fo_path :: "fileobj \<Rightarrow> path" where
  "fo_path (FileObj k p m) = p"

text \<open>The value of \<open>output\<close> in \<open>build_command_1\<close>: \<open>sys.stdout.buffer\<close> or a file object.\<close>

datatype sink = Stdout_buffer | File fileobj

text \<open>The \<open>_done\<close> callbacks: \<open>sh.rm('-f', temp)\<close> and \<open>outfile and outfile.close()\<close>.\<close>

datatype cleanup = Remove_temp path | Close_outfile "fileobj option"

datatype command = Command string

text \<open>
  A baked \<open>sh\<close> command: the program, its positional arguments and the special keyword
  arguments that zconcat passes (\<open>None\<close> where a keyword is absent or is passed
  the value \<open>None\<close>).  A stream is named by its number in the store of streams.
\<close>

record stage =
  prog :: string
  args :: "string list"
  s_in :: "nat option"
  s_in_bufsize :: "nat option"
  s_out :: "sink option"
  s_out_bufsize :: "nat option"
  s_tty_out :: "bool option"
  s_done :: "cleanup option"
  s_piped :: "bool option"
  s_bg :: "bool option"

definition bake :: "command \<Rightarrow> string list \<Rightarrow> stage" where
  "bake c as = (case c of Command p \<Rightarrow>
     \<lparr>prog = p, args = as, s_in = None, s_in_bufsize = None, s_out = None,
      s_out_bufsize = None, s_tty_out = None, s_done = None, s_piped = None, s_bg = None\<rparr>)"

text \<open>
  The world: the unread rest of every binary stream (\<open>sys.stdin.buffer\<close> is stream 0),
  the contents of the files, the number of temporary files made so far, the calls of
  \<open>open\<close> on the output in the order they happened (also those that failed), the
  commands called so far, the text written to \<open>sys.stdout\<close> that is still buffered or
  already flushed, whether the reader of the standard output has closed its end, and the
  two list objects made when the \<open>def\<close> statements ran: the defaults of the
  parameter \<open>inputs\<close> of \<open>build_command\<close> and of \<open>run\<close>.
\<close>

record world =
  streams :: "nat \<Rightarrow> bytes"
  files :: "path \<rightharpoonup> bytes"
  tmp_count :: nat
  opened :: "(path \<times> string) list"
  launched :: "stage list"
  stdout_pending :: bytes
  stdout_flushed :: bytes
  stdout_closed :: bool
  build_command_inputs :: "string list"
  run_inputs :: "string list"

definition sys_stdin_buffer :: nat where
  "sys_stdin_buffer = 0"

text \<open>A \<open>RunningCommand\<close> of \<open>sh\<close>, as far as zconcat reads it.\<close>

record running =
  exit_code :: int

text \<open>
  What lies outside the program: the \<open>file\<close> utility on a named file and on bytes
  piped to it (its standard output, or the exception \<open>sh\<close> raises), which programs
  \<open>sh\<close> finds on the path, whether \<open>sh\<close> accepts a combination of special keyword
  arguments, what calling a baked command does (\<open>sh\<close> returns a running command or
  raises, and the processes change the world), the names \<open>mkstemp\<close> picks, the
  text of a \<open>UnicodeDecodeError\<close>, and the \<open>OSError\<close> with which \<open>open\<close> fails on a
  path in a mode, if it does.
\<close>

record env =
  file_brief_path :: "path \<Rightarrow> world \<Rightarrow> exn + bytes"
  file_brief_bytes :: "bytes \<Rightarrow> exn + bytes"
  installed :: "string \<Rightarrow> bool"
  bake_ok :: "sink option \<Rightarrow> nat \<Rightarrow> bool \<Rightarrow> bool \<Rightarrow> bool"
  sh_call :: "stage \<Rightarrow> running option \<Rightarrow> world \<Rightarrow> (exn + running) \<times> world"
  mkstemp_name :: "string \<Rightarrow> nat \<Rightarrow> path"
  decode_msg :: "bytes \<Rightarrow> string"
  open_error :: "path \<Rightarrow> string \<Rightarrow> world \<Rightarrow> exn option"

text \<open>\<open>getattr(sh, name)\<close>: the command, or \<open>CommandNotFound\<close>.\<close>

definition sh_getattr :: "env \<Rightarrow> string \<Rightarrow> exn + command" where
  "sh_getattr e name =
     (if installed e name then Inr (Command name) else Inl (Exn CommandNotFound name))"

section \<open>General command utilities\<close>

definition tmp_dir :: string where
  "tmp_dir = ''/tmp''"

text \<open>\<open>make_temp_file\<close>: \<open>mkstemp\<close> creates an empty file and returns its name.\<close>

definition make_temp_file :: "env \<Rightarrow> string \<Rightarrow> world \<Rightarrow> path \<times> world" where
  "make_temp_file e prefix w =
     (let p = tmp_dir @ ''/'' @ mkstemp_name e prefix (tmp_count w)
      in (p, w\<lparr>files := (files w)(p \<mapsto> []), tmp_count := Suc (tmp_count w)\<rparr>))"

definition get_buf_sizes :: "env \<Rightarrow> sink option \<Rightarrow> bool \<Rightarrow> bool \<Rightarrow> nat \<times> nat option" where
  "get_buf_sizes e output tty_out piped =
     (let in_bufsize = 2 ^ 16;
          out_bufsize = in_bufsize
      in (in_bufsize, if bake_ok e output out_bufsize tty_out piped then Some out_bufsize else None))"

subsection \<open>Reading a stream\<close>

text \<open>
  \<open>readline\<close> of a buffered binary stream: the bytes up to and including the first
  newline, or all that is left; empty at the end of the stream (never \<open>None\<close>, so the
  \<open>break\<close> of the source is not taken).
\<close>

fun readline :: "bytes \<Rightarrow> bytes \<times> bytes" where
  "readline [] = ([], [])"
| "readline (c # cs) =
     (if c = newline then ([c], cs) else (case readline cs of (l, r) \<Rightarrow> (c # l, r)))"

text \<open>The loop \<open>for i in range(n): header.write(stream.readline())\<close>.\<close>

fun read_lines :: "nat \<Rightarrow> bytes \<Rightarrow> bytes \<Rightarrow> bytes \<times> bytes" where
  "read_lines 0 header s = (header, s)"
| "read_lines (Suc k) header s =
     (case readline s of (line, s') \<Rightarrow> read_lines k (header @ line) s')"

text \<open>
  \<open>stream.read(n)\<close> of a buffered binary stream: \<open>n\<close> bytes or what is left;
  all of it for \<open>-1\<close>; \<open>ValueError\<close> below \<open>-1\<close>.
\<close>

definition stream_read :: "int \<Rightarrow> bytes \<Rightarrow> exn + (bytes \<times> bytes)" where
  "stream_read n s =
     (if n = -1 then Inr (s, [])
      else if n < -1 then Inl (Exn ValueError ''read length must be non-negative or -1'')
      else Inr (take (nat n) s, drop (nat n) s))"

definition reconstruct_stage :: "path \<Rightarrow> nat \<Rightarrow> nat \<Rightarrow> stage" where
  "reconstruct_stage temp stream in_bufsize =
     (bake (Command ''cat'') [temp, ''-''])
       \<lparr>s_in := Some stream, s_in_bufsize := Some in_bufsize, s_piped := Some True,
        s_done := Some (Remove_temp temp)\<rparr>"

text \<open>
  \<open>get_stream_header(stream, n, unit, preserve)\<close>.  The result is the header and, with
  \<open>preserve\<close>, the command sequence.  \<open>sh.cat\<close> is looked up when the command is
  baked, after the temporary file has been written.
\<close>

definition get_stream_header ::
  "env \<Rightarrow> nat \<Rightarrow> int \<Rightarrow> string \<Rightarrow> bool \<Rightarrow> world \<Rightarrow> (exn + bytes \<times> stage list option) \<times> world" where
  "get_stream_header e stream n unit preserve w =
     (case (if unit = ''line'' then Inr (read_lines (nat n) [] (streams w stream))
            else (case stream_read n (streams w stream) of
                    Inl x \<Rightarrow> Inl x
                  | Inr (h, r) \<Rightarrow> Inr (h, r))) of
        Inl x \<Rightarrow> (Inl x, w)
      | Inr (header, rest) \<Rightarrow>
          (let w1 = w\<lparr>streams := (streams w)(stream := rest)\<rparr> in
           if preserve then
             (case make_temp_file e ''kgtk-header.'' w1 of (temp, w2) \<Rightarrow>
                (let w3 = w2\<lparr>files := (files w2)(temp \<mapsto> header)\<rparr>;
                     bufs = get_buf_sizes e None False True
                 in (case sh_getattr e ''cat'' of
                       Inl x \<Rightarrow> (Inl x, w3)
                     | Inr c \<Rightarrow> (Inr (header, Some [reconstruct_stage temp stream (fst bufs)]), w3))))
           else (Inr (header, None), w1)))"

text \<open>
  The \<open>cat\<close> utility (POSIX): the operands in order, \<open>-\<close> standing for the standard
  input, which is read once; an operand that is no file contributes nothing.
\<close>

fun cat_files :: "(path \<rightharpoonup> bytes) \<Rightarrow> bytes \<Rightarrow> string list \<Rightarrow> bytes" where
  "cat_files fs inp [] = []"
| "cat_files fs inp (a # as) =
     (if a = ''-'' then inp @ cat_files fs [] as
      else (case fs a of None \<Rightarrow> [] | Some c \<Rightarrow> c) @ cat_files fs inp as)"

text \<open>What a \<open>cat\<close> stage writes when it is run in world \<open>w\<close> with its \<open>_in\<close> stream.\<close>

definition cat_output :: "world \<Rightarrow> stage \<Rightarrow> bytes" where
  "cat_output w st =
     cat_files (files w) (case s_in st of None \<Rightarrow> [] | Some k \<Rightarrow> streams w k) (args st)"

subsection \<open>Running baked commands\<close>

definition is_piped_or_bg :: "stage \<Rightarrow> bool" where
  "is_piped_or_bg cmd =
     ((case s_piped cmd of None \<Rightarrow> False | Some b \<Rightarrow> b) \<or>
      (case s_bg cmd of None \<Rightarrow> False | Some b \<Rightarrow> b))"

text \<open>
  The loop of \<open>run_sh_commands\<close> with its variables \<open>piped_output\<close> and \<open>last_cmd\<close>
  (\<open>commands\<close> is a list here, as \<open>build_command\<close> returns one).  Calling a command
  records it in \<open>launched\<close>; an exception leaves the loop, which has no handler.
\<close>

fun run_loop ::
  "env \<Rightarrow> stage list \<Rightarrow> running option \<Rightarrow> running option \<Rightarrow> world \<Rightarrow> (exn + running option) \<times> world" where
  "run_loop e [] piped_output last_cmd w = (Inr last_cmd, w)"
| "run_loop e (cmd # cmds) piped_output last_cmd w =
     (case sh_call e cmd piped_output w of (r, w') \<Rightarrow>
        (let w1 = w'\<lparr>launched := launched w @ [cmd]\<rparr> in
         case r of
           Inl x \<Rightarrow> (Inl x, w1)
         | Inr out \<Rightarrow>
             run_loop e cmds (if is_piped_or_bg cmd then Some out else None) (Some out) w1))"

definition run_sh_commands :: "env \<Rightarrow> stage list \<Rightarrow> world \<Rightarrow> (exn + running option) \<times> world" where
  "run_sh_commands e commands w = run_loop e commands None None w"

subsection \<open>Determining the type of a file\<close>

datatype file_arg = Named path | Stream bytes

text \<open>The two calls of \<open>sh.file\<close>, chosen by \<open>isinstance(file, str)\<close>.\<close>

definition file_brief :: "env \<Rightarrow> file_arg \<Rightarrow> world \<Rightarrow> exn + bytes" where
  "file_brief e file w =
     (case file of Named p \<Rightarrow> file_brief_path e p w | Stream b \<Rightarrow> file_brief_bytes e b)"

definition determine_file_type :: "env \<Rightarrow> file_arg \<Rightarrow> world \<Rightarrow> exn + string" where
  "determine_file_type e file w =
     (case file_brief e file w of
        Inl x \<Rightarrow> Inl x
      | Inr file_type \<Rightarrow>
          (case py_split file_type of
             [] \<Rightarrow> Inl (Exn IndexError ''list index out of range'')
           | t # ts \<Rightarrow> py_decode (decode_msg e) (py_lower t)))"

definition compression_type_table :: "(string \<times> (string \<times> string) list) list" where
  "compression_type_table =
     [(''gzip'',  [(''cat'', ''zcat''),  (''compress'', ''gzip'')]),
      (''bzip2'', [(''cat'', ''bzcat''), (''compress'', ''bzip2'')]),
      (''xz'',    [(''cat'', ''xzcat''), (''compress'', ''xz'')]),
      (''text'',  [(''cat'', ''cat'')])]"

definition table_get :: "string \<Rightarrow> (string \<times> string) list" where
  "table_get file_type =
     (case map_of compression_type_table file_type of None \<Rightarrow> [] | Some d \<Rightarrow> d)"

definition cat_name :: "string \<Rightarrow> string" where
  "cat_name file_type =
     (case map_of (table_get file_type) ''cat'' of None \<Rightarrow> ''cat'' | Some c \<Rightarrow> c)"

definition get_cat_command :: "env \<Rightarrow> string \<Rightarrow> exn + command" where
  "get_cat_command e file_type = sh_getattr e (cat_name file_type)"

definition get_compress_command :: "env \<Rightarrow> string \<Rightarrow> exn + command option" where
  "get_compress_command e file_type =
     (case map_of (table_get file_type) ''compress'' of
        None \<Rightarrow> Inr None
      | Some compress \<Rightarrow>
          (if compress = [] then Inr None
           else (case sh_getattr e compress of Inl x \<Rightarrow> Inl x | Inr c \<Rightarrow> Inr (Some c))))"

section \<open>The zconcat implementation\<close>

definition compress_switch_to_file_type :: "bool \<Rightarrow> bool \<Rightarrow> bool \<Rightarrow> string" where
  "compress_switch_to_file_type gz bz2 xz =
     (if gz then ''gzip'' else if bz2 then ''bzip2'' else if xz then ''xz'' else ''text'')"

text \<open>
  \<open>open(output, _out_mode)\<close> on the output.  The call is recorded in \<open>opened\<close>.  It
  raises the \<open>OSError\<close> of the environment, or returns a file object: \<open>wb\<close> truncates
  or creates the file, \<open>ab\<close> creates it when it is missing.  (The program uses no other
  mode; the model leaves the files as they are for one.)
\<close>

definition py_open :: "env \<Rightarrow> path \<Rightarrow> string \<Rightarrow> world \<Rightarrow> (exn + fileobj) \<times> world" where
  "py_open e p mode w =
     (case open_error e p mode w of
        Some x \<Rightarrow> (Inl x, w\<lparr>opened := opened w @ [(p, mode)]\<rparr>)
      | None \<Rightarrow>
          (Inr (FileObj (length (opened w)) p mode),
           w\<lparr>files := (if mode = ''wb'' then (files w)(p \<mapsto> [])
                       else if mode = ''ab'' \<and> files w p = None then (files w)(p \<mapsto> [])
                       else files w),
             opened := opened w @ [(p, mode)]\<rparr>))"

text \<open>
  The first lines of \<open>build_command_1\<close>: the values of \<open>input\<close>, and of \<open>output\<close>
  and \<open>outfile\<close> with the world after the \<open>open\<close>.
\<close>

definition input_or_stdin :: "string option \<Rightarrow> string" where
  "input_or_stdin input = (case input of None \<Rightarrow> ''-'' | Some s \<Rightarrow> if s = [] then ''-'' else s)"

definition open_output ::
  "env \<Rightarrow> string option \<Rightarrow> bool \<Rightarrow> string \<Rightarrow> world
    \<Rightarrow> (exn + sink option \<times> fileobj option) \<times> world" where
  "open_output e output piped out_mode w =
     (if piped then (Inr (None, None), w)
      else (case output of
              None \<Rightarrow> (Inr (Some Stdout_buffer, None), w)
            | Some p \<Rightarrow>
                if p = [] then (Inr (Some Stdout_buffer, None), w)
                else (case py_open e p out_mode w of
                        (Inl x, w') \<Rightarrow> (Inl x, w')
                      | (Inr f, w') \<Rightarrow> (Inr (Some (File f), Some f), w'))))"

text \<open>The stages at the end of \<open>build_command_1\<close>, after \<open>catcmd\<close> is known.\<close>

definition tail_stages ::
  "command \<Rightarrow> string list \<Rightarrow> command option \<Rightarrow> sink option \<Rightarrow> nat option \<Rightarrow> fileobj option \<Rightarrow> bool \<Rightarrow> stage list" where
  "tail_stages catcmd cat_args compress output out_bufsize outfile piped =
     (case compress of
        Some c \<Rightarrow>
          [(bake catcmd cat_args)\<lparr>s_piped := Some True\<rparr>,
           (bake c [''-c''])\<lparr>s_out := output, s_out_bufsize := out_bufsize,
              s_tty_out := Some False, s_done := Some (Close_outfile outfile),
              s_piped := Some piped\<rparr>]
      | None \<Rightarrow>
          [(bake catcmd cat_args)\<lparr>s_out := output, s_out_bufsize := out_bufsize,
              s_done := Some (Close_outfile outfile), s_piped := Some piped\<rparr>])"

definition build_command_1 ::
  "env \<Rightarrow> string option \<Rightarrow> string option \<Rightarrow> bool \<Rightarrow> bool \<Rightarrow> bool \<Rightarrow> bool \<Rightarrow> string \<Rightarrow> world
    \<Rightarrow> (exn + stage list) \<times> world" where
  "build_command_1 e input output gz bz2 xz piped out_mode w =
     (let input1 = input_or_stdin input
      in case open_output e output piped out_mode w of
        (Inl x, w1) \<Rightarrow> (Inl x, w1)
      | (Inr (output1, outfile), w1) \<Rightarrow>
        (case get_compress_command e (compress_switch_to_file_type gz bz2 xz) of
           Inl x \<Rightarrow> (Inl x, w1)
         | Inr compress \<Rightarrow>
             (let out_bufsize = snd (get_buf_sizes e output1 (compress = None) piped) in
              if input1 = ''-'' then
                (case get_stream_header e sys_stdin_buffer 1024 ''byte'' True w1 of
                   (Inl x, w2) \<Rightarrow> (Inl x, w2)
                 | (Inr (header, inp), w2) \<Rightarrow>
                     (case determine_file_type e (Stream header) w2 of
                        Inl x \<Rightarrow> (Inl x, w2)
                      | Inr file_type \<Rightarrow>
                          (case get_cat_command e file_type of
                             Inl x \<Rightarrow> (Inl x, w2)
                           | Inr catcmd \<Rightarrow>
                               (Inr ((case inp of None \<Rightarrow> [] | Some cs \<Rightarrow> cs) @
                                     tail_stages catcmd [] compress output1 out_bufsize outfile piped),
                                w2))))
              else
                (case determine_file_type e (Named input1) w1 of
                   Inl x \<Rightarrow> (Inl x, w1)
                 | Inr file_type \<Rightarrow>
                     (case get_cat_command e file_type of
                        Inl x \<Rightarrow> (Inl x, w1)
                      | Inr catcmd \<Rightarrow>
                          (Inr (tail_stages catcmd [input1] compress output1 out_bufsize outfile piped),
                           w1))))))"

text \<open>The loop of \<open>build_command\<close> with its variables \<open>command\<close> and \<open>out_mode\<close>.\<close>

fun build_loop ::
  "env \<Rightarrow> string list \<Rightarrow> string option \<Rightarrow> bool \<Rightarrow> bool \<Rightarrow> bool \<Rightarrow> string \<Rightarrow> stage list \<Rightarrow> world
    \<Rightarrow> (exn + stage list) \<times> world" where
  "build_loop e [] output gz bz2 xz out_mode command w = (Inr command, w)"
| "build_loop e (inp # inputs) output gz bz2 xz out_mode command w =
     (case build_command_1 e (Some inp) output gz bz2 xz False out_mode w of
        (Inl x, w') \<Rightarrow> (Inl x, w')
      | (Inr cs, w') \<Rightarrow> build_loop e inputs output gz bz2 xz ''ab'' (command @ cs) w')"

text \<open>
  \<open>build_command\<close>.  The list \<open>inputs\<close> is the caller's object: the second component
  of the result is its content after the call.
\<close>

definition build_command ::
  "env \<Rightarrow> string list \<Rightarrow> string option \<Rightarrow> bool \<Rightarrow> bool \<Rightarrow> bool \<Rightarrow> world
    \<Rightarrow> (exn + stage list) \<times> string list \<times> world" where
  "build_command e inputs output gz bz2 xz w =
     (let inputs1 = (if length inputs = 0 then inputs @ [''-''] else inputs)
      in case build_loop e inputs1 output gz bz2 xz ''wb'' [] w of
           (r, w') \<Rightarrow> (r, inputs1, w'))"

text \<open>A call of \<open>build_command\<close> that leaves \<open>inputs\<close> out: the default object is used.\<close>

definition build_command_omitted ::
  "env \<Rightarrow> string option \<Rightarrow> bool \<Rightarrow> bool \<Rightarrow> bool \<Rightarrow> world \<Rightarrow> (exn + stage list) \<times> world" where
  "build_command_omitted e output gz bz2 xz w =
     (case build_command e (build_command_inputs w) output gz bz2 xz w of
        (r, inputs1, w') \<Rightarrow> (r, w'\<lparr>build_command_inputs := inputs1\<rparr>))"

text \<open>
  \<open>sys.stdout.flush()\<close>: what is pending is written out.  With nothing pending
  nothing is written.  Writing to a standard output whose reader has closed its end
  raises \<open>BrokenPipeError\<close>.
\<close>

definition stdout_flush :: "world \<Rightarrow> exn + world" where
  "stdout_flush w =
     (if stdout_pending w = [] then Inr w
      else if stdout_closed w then Inl (Exn BrokenPipeError ''[Errno 32] Broken pipe'')
      else Inr (w\<lparr>stdout_flushed := stdout_flushed w @ stdout_pending w, stdout_pending := []\<rparr>))"

text \<open>
  The two \<open>except\<close> clauses of \<open>run\<close>, tried in order.  \<open>SignalException_SIGPIPE\<close>
  is swallowed: the handler flushes and \<open>run\<close> returns \<open>None\<close>; an exception of the
  flush is raised inside the handler, where the second clause does not apply, and leaves
  \<open>run\<close> as it is.  Any other \<open>Exception\<close> becomes a \<open>KGTKException\<close>.  What derives
  from \<open>BaseException\<close> only matches neither clause.
\<close>

definition run_except :: "exn \<Rightarrow> world \<Rightarrow> (raised + int option) \<times> world" where
  "run_except x w =
     (if exn_is SignalException_SIGPIPE x then
        (case stdout_flush w of
           Inl y \<Rightarrow> (Inl (Uncaught y), w)
         | Inr w' \<Rightarrow> (Inr None, w'))
      else if is_Exception x then
        (Inl (KGTKException (''INTERNAL ERROR: '' @ str_exn x @ [newline])), w)
      else (Inl (Uncaught x), w))"

text \<open>The \<open>AttributeError\<close> of \<open>None.exit_code\<close>, when no command was run.\<close>

definition none_exit_code :: exn where
  "none_exit_code =
     Exn AttributeError
       (CHR 0x27 # ''NoneType'' @ CHR 0x27 # '' object has no attribute '' @
        CHR 0x27 # ''exit_code'' @ [CHR 0x27])"

definition run ::
  "env \<Rightarrow> string list \<Rightarrow> string option \<Rightarrow> bool \<Rightarrow> bool \<Rightarrow> bool \<Rightarrow> world
    \<Rightarrow> (raised + int option) \<times> string list \<times> world" where
  "run e inputs output gz bz2 xz w =
     (case build_command e inputs output gz bz2 xz w of
        (Inl x, inputs1, w1) \<Rightarrow> (case run_except x w1 of (r, w2) \<Rightarrow> (r, inputs1, w2))
      | (Inr commands, inputs1, w1) \<Rightarrow>
          (case run_sh_commands e commands w1 of
             (Inl x, w2) \<Rightarrow> (case run_except x w2 of (r, w3) \<Rightarrow> (r, inputs1, w3))
           | (Inr None, w2) \<Rightarrow>
               (case run_except none_exit_code w2 of (r, w3) \<Rightarrow> (r, inputs1, w3))
           | (Inr (Some last_cmd), w2) \<Rightarrow> (Inr (Some (exit_code last_cmd)), inputs1, w2)))"

text \<open>A call of \<open>run\<close> that leaves \<open>inputs\<close> out.\<close>

definition run_omitted ::
  "env \<Rightarrow> string option \<Rightarrow> bool \<Rightarrow> bool \<Rightarrow> bool \<Rightarrow> world \<Rightarrow> (raised + int option) \<times> world" where
  "run_omitted e output gz bz2 xz w =
     (case run e (run_inputs w) output gz bz2 xz w of
        (r, inputs1, w') \<Rightarrow> (r, w'\<lparr>run_inputs := inputs1\<rparr>))"

section \<open>Notions of the specification\<close>

text \<open>
  The first whitespace-delimited word of a byte sequence, in the words of the
  specification: skip the leading whitespace, take what comes before the next one.
\<close>

definition spec_first_word :: "bytes \<Rightarrow> bytes" where
  "spec_first_word bs = takeWhile (\<lambda>c. \<not> is_space c) (dropWhile is_space bs)"

text \<open>The number of lines of a byte sequence; a last line need not end in a newline.\<close>

definition num_lines :: "bytes \<Rightarrow> nat" where
  "num_lines bs =
     length (filter (\<lambda>c. c = newline) bs) + (if bs \<noteq> [] \<and> last bs \<noteq> newline then 1 else 0)"

text \<open>
  The value of the variable \<open>file_type\<close> in \<open>build_command_1\<close>: the type of the first
  1024 bytes of the standard input, or of the named file, determined after the output
  has been opened (the exception of the \<open>open\<close> when it fails).
\<close>

definition sniffed_file_type ::
  "env \<Rightarrow> string option \<Rightarrow> string option \<Rightarrow> bool \<Rightarrow> string \<Rightarrow> world \<Rightarrow> exn + string" where
  "sniffed_file_type e input output piped out_mode w =
     (case open_output e output piped out_mode w of
        (Inl x, w1) \<Rightarrow> Inl x
      | (Inr opening, w1) \<Rightarrow>
          if input_or_stdin input = ''-''
          then determine_file_type e (Stream (take 1024 (streams w1 sys_stdin_buffer))) w1
          else determine_file_type e (Named (input_or_stdin input)) w1)"

text \<open>
  The decode programs and the encode programs of \<open>compression_type_table\<close>.  A decode
  stage of a pipeline runs a decode program on the source or on the pipe (the stage
  that replays a peeked stream has the stream as its \<open>_in\<close>); an encode stage runs
  an encode program.
\<close>

definition decode_programs :: "string list" where
  "decode_programs = [''zcat'', ''bzcat'', ''xzcat'', ''cat'']"

definition encode_programs :: "string list" where
  "encode_programs = [''gzip'', ''bzip2'', ''xz'']"

definition decode_stages :: "stage list \<Rightarrow> stage list" where
  "decode_stages cmds = filter (\<lambda>st. prog st \<in> set decode_programs \<and> s_in st = None) cmds"

definition encode_stages :: "stage list \<Rightarrow> stage list" where
  "encode_stages cmds = filter (\<lambda>st. prog st \<in> set encode_programs) cmds"

text \<open>
  The path that \<open>build_command_1\<close> opens: the output, when it is a non-empty string and the
  pipeline is not piped.
\<close>

definition output_path :: "string option \<Rightarrow> bool \<Rightarrow> path option" where
  "output_path output piped =
     (if piped then None
      else (case output of None \<Rightarrow> None | Some p \<Rightarrow> if p = [] then None else Some p))"

text \<open>The modes of the file objects that the stages of a plan write to, in order.\<close>

fun sink_modes :: "stage list \<Rightarrow> string list" where
  "sink_modes [] = []"
| "sink_modes (st # sts) =
     (case s_out st of Some (File f) \<Rightarrow> fo_mode f # sink_modes sts | _ \<Rightarrow> sink_modes sts)"

text \<open>
  The invariant of the line-reading loop: the header read so far is empty or ends a line,
  or the stream is exhausted.
\<close>

definition header_ok :: "bytes \<Rightarrow> bytes \<Rightarrow> bool" where
  "header_ok h s = (h = [] \<or> last h = newline \<or> s = [])"

section \<open>A concrete environment\<close>

text \<open>
  An environment and a world on which the theorems are instantiated: \<open>file\<close> reports
  gzip data for \<open>/tmp/out.gz\<close> and text otherwise, every program is installed, the
  decoder of \<open>/tmp/broken\<close> exits with status 1 (so \<open>sh\<close> raises
  \<open>ErrorReturnCode\<close>), the one of \<open>/tmp/closed\<close> is killed by SIGPIPE, the one of
  \<open>/tmp/slow\<close> is interrupted from the keyboard, and every other command exits with
  status 0; \<open>open\<close> fails on \<open>/nodir/out\<close> only.
\<close>

definition example_call :: "stage \<Rightarrow> running option \<Rightarrow> world \<Rightarrow> (exn + running) \<times> world" where
  "example_call st inp w =
     (if args st = [''/tmp/broken''] then (Inl (Exn ErrorReturnCode ''RAN: cat /tmp/broken''), w)
      else if args st = [''/tmp/closed''] then (Inl (Exn SignalException_SIGPIPE ''RAN: cat /tmp/closed''), w)
      else if args st = [''/tmp/slow''] then (Inl (Exn KeyboardInterrupt []), w)
      else (Inr \<lparr>exit_code = 0\<rparr>, w))"

definition example_env :: env where
  "example_env =
     \<lparr>file_brief_path = (\<lambda>p w. Inr (if p = ''/tmp/out.gz'' then ''gzip compressed data''
                                     else ''ASCII text'')),
      file_brief_bytes = (\<lambda>b. Inr (if b = [] then ''empty'' else ''ASCII text'')),
      installed = (\<lambda>name. True),
      bake_ok = (\<lambda>out n t p. True),
      sh_call = example_call,
      mkstemp_name = (\<lambda>prefix k. prefix @ replicate k (CHR ''x'')),
      decode_msg = (\<lambda>b. ''invalid start byte''),
      open_error = (\<lambda>p mode w. if p = ''/nodir/out''
                                 then Some (Exn OSError ''[Errno 2] No such file or directory'')
                                 else None)\<rparr>"

definition example_world :: world where
  "example_world =
     \<lparr>streams = (\<lambda>k. if k = 0 then ''hello'' @ [newline] else []),
      files = [''/tmp/file1'' \<mapsto> ''line1'' @ [newline]],
      tmp_count = 0, opened = [], launched = [],
      stdout_pending = ''x'', stdout_flushed = [], stdout_closed = False,
      build_command_inputs = [], run_inputs = []\<rparr>"


section \<open>Splitting and classifying\<close>

lemma split_aux_skip: "split_aux [] bs = split_aux [] (dropWhile is_space bs)"
  by (induction bs) auto

lemma split_aux_word:
  "split_aux cur bs =
     (if cur @ takeWhile (\<lambda>c. \<not> is_space c) bs = []
      then split_aux [] (dropWhile (\<lambda>c. \<not> is_space c) bs)
      else (cur @ takeWhile (\<lambda>c. \<not> is_space c) bs) #
             split_aux [] (dropWhile (\<lambda>c. \<not> is_space c) bs))"
  by (induction bs arbitrary: cur) auto

lemma first_word_empty: "spec_first_word bs = [] \<Longrightarrow> dropWhile is_space bs = []"
  unfolding spec_first_word_def
  by (metis (no_types, lifting) dropWhile_eq_Nil_conv hd_dropWhile list.set_sel(1) takeWhile_eq_Nil_iff)

lemma py_split_first:
  "py_split bs =
     (if spec_first_word bs = [] then []
      else spec_first_word bs # py_split (dropWhile (\<lambda>c. \<not> is_space c) (dropWhile is_space bs)))"
proof (cases "spec_first_word bs = []")
  case True
  then have "dropWhile is_space bs = []" by (rule first_word_empty)
  then have "split_aux [] bs = split_aux [] []" using split_aux_skip [of bs] by (simp only:)
  then have "split_aux [] bs = []" by simp
  with True show ?thesis by (simp add: py_split_def)
next
  case False
  have "split_aux [] bs = split_aux [] (dropWhile is_space bs)" by (rule split_aux_skip)
  also have "\<dots> = spec_first_word bs # split_aux [] (dropWhile (\<lambda>c. \<not> is_space c) (dropWhile is_space bs))"
    using False split_aux_word [of "[]" "dropWhile is_space bs"] by (simp add: spec_first_word_def)
  finally show ?thesis using False by (simp add: py_split_def)
qed

lemma determine_file_type_eq:
  assumes "file_brief e file w = Inr out"
  shows "determine_file_type e file w =
     (if spec_first_word out = [] then Inl (Exn IndexError ''list index out of range'')
      else py_decode (decode_msg e) (py_lower (spec_first_word out)))"
  using assms py_split_first [of out] by (simp add: determine_file_type_def)

lemma cat_name_cases:
  "cat_name t = (if t = ''gzip'' then ''zcat'' else if t = ''bzip2'' then ''bzcat''
                 else if t = ''xz'' then ''xzcat'' else ''cat'')"
  by (simp add: cat_name_def table_get_def compression_type_table_def)

text \<open>
  Claim C3 (classification fallback).  When the classifier prints \<open>txt\<close>, every token that
  \<open>determine_file_type\<close> returns is the lower-cased first whitespace-delimited word of
  \<open>txt\<close>, and such a token is returned whenever that word exists and is well-formed UTF-8.
  A token other than \<open>gzip\<close>, \<open>bzip2\<close>, \<open>xz\<close> and \<open>text\<close> is decoded with plain \<open>cat\<close>:
  \<open>get_cat_command\<close> does not fail on it, it yields \<open>sh.cat\<close>.
\<close>

theorem classification_fallback:
  assumes "file_brief e file w = Inr txt"
  shows "(\<forall>tok. determine_file_type e file w = Inr tok \<longrightarrow>
            tok = py_lower (spec_first_word txt) \<and>
            (tok \<noteq> ''gzip'' \<and> tok \<noteq> ''bzip2'' \<and> tok \<noteq> ''xz'' \<and> tok \<noteq> ''text'' \<longrightarrow>
               get_cat_command e tok = sh_getattr e ''cat'' \<and>
               (installed e ''cat'' \<longrightarrow> get_cat_command e tok = Inr (Command ''cat''))))
         \<and> (spec_first_word txt \<noteq> [] \<and> utf8_valid (py_lower (spec_first_word txt)) \<longrightarrow>
              determine_file_type e file w = Inr (py_lower (spec_first_word txt)))"
  using determine_file_type_eq [OF assms]
  by (auto simp: py_decode_def get_cat_command_def cat_name_cases sh_getattr_def split: if_splits)

lemma build_loop_single:
  "build_loop e [inp] outp gz bz2 xz m [] w = build_command_1 e (Some inp) outp gz bz2 xz False m w"
  by (simp split: prod.splits sum.splits)

text \<open>
  Claim C8 (empty-input default).  \<open>build_command\<close> on an empty list of inputs returns
  what it returns on the list holding the stdin sentinel \<open>-\<close>: the plan of the one pipeline
  that \<open>build_command_1\<close> builds for the standard input with mode \<open>wb\<close>.
\<close>

theorem empty_inputs_default:
  "build_command e [] outp gz bz2 xz w = build_command e [''-''] outp gz bz2 xz w
   \<and> build_command e [] outp gz bz2 xz w =
       (case build_command_1 e (Some ''-'') outp gz bz2 xz False ''wb'' w of
          (r, w') \<Rightarrow> (r, [''-''], w'))"
  by (simp add: build_command_def build_loop_single del: build_loop.simps)

lemma run_cases:
  "run e inputs outp gz bz2 xz w =
     (case build_command e inputs outp gz bz2 xz w of
        (Inl x, inputs1, w1) \<Rightarrow> (fst (run_except x w1), inputs1, snd (run_except x w1))
      | (Inr commands, inputs1, w1) \<Rightarrow>
          (case run_sh_commands e commands w1 of
             (Inl x, w2) \<Rightarrow> (fst (run_except x w2), inputs1, snd (run_except x w2))
           | (Inr None, w2) \<Rightarrow>
               (fst (run_except none_exit_code w2), inputs1, snd (run_except none_exit_code w2))
           | (Inr (Some last_cmd), w2) \<Rightarrow> (Inr (Some (exit_code last_cmd)), inputs1, w2)))"
  unfolding run_def by (simp split: prod.splits sum.splits option.splits)

lemma run_body_raises:
  assumes "build_command e inputs outp gz bz2 xz w = (Inl x, ins, w2) \<or>
           (\<exists>cmds w1. build_command e inputs outp gz bz2 xz w = (Inr cmds, ins, w1) \<and>
                      run_sh_commands e cmds w1 = (Inl x, w2))"
  shows "run e inputs outp gz bz2 xz w = (fst (run_except x w2), ins, snd (run_except x w2))"
  using assms by (auto simp: run_cases)

lemma run_except_KGTK:
  "fst (run_except x w) = Inl (KGTKException msg) \<Longrightarrow>
     is_Exception x \<and> \<not> exn_is SignalException_SIGPIPE x \<and>
     msg = ''INTERNAL ERROR: '' @ str_exn x @ [newline]"
  by (simp add: run_except_def split: if_splits sum.splits)

lemma run_Inl:
  "run e inputs outp gz bz2 xz w = (Inl y, ins', w') \<Longrightarrow> \<exists>x0 w0. fst (run_except x0 w0) = Inl y"
  by (auto simp: run_cases split: prod.splits sum.splits option.splits)

text \<open>
  Claim C6 (downstream closed), as the code has it.  When building or running the commands
  raises \<open>SignalException_SIGPIPE\<close>, \<open>run\<close> catches it and flushes \<open>sys.stdout\<close>, and
  what \<open>run\<close> does next is what the flush does: when the flush returns, \<open>run\<close> returns
  \<open>None\<close> and no exception reaches the caller; when text is pending and the reader has
  closed its end, the flush raises \<open>BrokenPipeError\<close> inside the handler and that exception
  leaves \<open>run\<close>, so the run is not the benign success of the claim.
\<close>

theorem downstream_closed_handler:
  assumes "exn_is SignalException_SIGPIPE x"
    and "build_command e inputs outp gz bz2 xz w = (Inl x, ins, w2) \<or>
         (\<exists>cmds w1. build_command e inputs outp gz bz2 xz w = (Inr cmds, ins, w1) \<and>
                    run_sh_commands e cmds w1 = (Inl x, w2))"
  shows "run e inputs outp gz bz2 xz w =
           (case stdout_flush w2 of
              Inl y \<Rightarrow> (Inl (Uncaught y), ins, w2)
            | Inr w3 \<Rightarrow> (Inr None, ins, w3))
       \<and> (stdout_pending w2 \<noteq> [] \<and> stdout_closed w2 \<longrightarrow>
            run e inputs outp gz bz2 xz w =
              (Inl (Uncaught (Exn BrokenPipeError ''[Errno 32] Broken pipe'')), ins, w2))
       \<and> (stdout_pending w2 = [] \<or> \<not> stdout_closed w2 \<longrightarrow>
            fst (run e inputs outp gz bz2 xz w) = Inr None \<and>
            stdout_pending (snd (snd (run e inputs outp gz bz2 xz w))) = [] \<and>
            stdout_flushed (snd (snd (run e inputs outp gz bz2 xz w))) =
              stdout_flushed w2 @ stdout_pending w2)"
proof -
  have r: "run e inputs outp gz bz2 xz w = (fst (run_except x w2), ins, snd (run_except x w2))"
    by (rule run_body_raises [OF assms(2)])
  from assms(1) have x: "run_except x w2 =
      (case stdout_flush w2 of Inl y \<Rightarrow> (Inl (Uncaught y), w2) | Inr w3 \<Rightarrow> (Inr None, w3))"
    by (simp add: run_except_def)
  show ?thesis
    unfolding r x by (simp add: stdout_flush_def)
qed

text \<open>
  Claim C9, amended (exception wrapping).  An exception that derives from \<open>Exception\<close>,
  other than \<open>SignalException_SIGPIPE\<close>, raised while building or running the commands
  leaves \<open>run\<close> as a \<open>KGTKException\<close> whose message is \<open>INTERNAL ERROR: \<close>, the text of
  the original exception and a newline.  An exception that does not derive from
  \<open>Exception\<close> leaves \<open>run\<close> as it is.  Every \<open>KGTKException\<close> that leaves \<open>run\<close> wraps
  such an original.
\<close>

theorem exception_wrapping:
  "((build_command e inputs outp gz bz2 xz w = (Inl x, ins, w2) \<or>
     (\<exists>cmds w1. build_command e inputs outp gz bz2 xz w = (Inr cmds, ins, w1) \<and>
                run_sh_commands e cmds w1 = (Inl x, w2))) \<and>
    is_Exception x \<and> \<not> exn_is SignalException_SIGPIPE x \<longrightarrow>
      run e inputs outp gz bz2 xz w =
        (Inl (KGTKException (''INTERNAL ERROR: '' @ str_exn x @ [newline])), ins, w2))
   \<and> ((build_command e inputs outp gz bz2 xz w = (Inl x, ins, w2) \<or>
        (\<exists>cmds w1. build_command e inputs outp gz bz2 xz w = (Inr cmds, ins, w1) \<and>
                   run_sh_commands e cmds w1 = (Inl x, w2))) \<and>
       \<not> is_Exception x \<longrightarrow>
         run e inputs outp gz bz2 xz w = (Inl (Uncaught x), ins, w2))
   \<and> (run e inputs outp gz bz2 xz w = (Inl (KGTKException msg), ins', w') \<longrightarrow>
        (\<exists>x0. is_Exception x0 \<and> \<not> exn_is SignalException_SIGPIPE x0 \<and>
              msg = ''INTERNAL ERROR: '' @ str_exn x0 @ [newline]))"
proof (intro conjI impI)
  assume a: "(build_command e inputs outp gz bz2 xz w = (Inl x, ins, w2) \<or>
     (\<exists>cmds w1. build_command e inputs outp gz bz2 xz w = (Inr cmds, ins, w1) \<and>
                run_sh_commands e cmds w1 = (Inl x, w2))) \<and>
    is_Exception x \<and> \<not> exn_is SignalException_SIGPIPE x"
  have "run e inputs outp gz bz2 xz w = (fst (run_except x w2), ins, snd (run_except x w2))"
    by (rule run_body_raises [OF conjunct1 [OF a]])
  with a show "run e inputs outp gz bz2 xz w =
        (Inl (KGTKException (''INTERNAL ERROR: '' @ str_exn x @ [newline])), ins, w2)"
    by (simp add: run_except_def)
next
  assume a: "(build_command e inputs outp gz bz2 xz w = (Inl x, ins, w2) \<or>
        (\<exists>cmds w1. build_command e inputs outp gz bz2 xz w = (Inr cmds, ins, w1) \<and>
                   run_sh_commands e cmds w1 = (Inl x, w2))) \<and>
       \<not> is_Exception x"
  have r: "run e inputs outp gz bz2 xz w = (fst (run_except x w2), ins, snd (run_except x w2))"
    by (rule run_body_raises [OF conjunct1 [OF a]])
  from a have "run_except x w2 = (Inl (Uncaught x), w2)"
    by (cases x) (auto simp: run_except_def)
  with r show "run e inputs outp gz bz2 xz w = (Inl (Uncaught x), ins, w2)" by simp
next
  assume "run e inputs outp gz bz2 xz w = (Inl (KGTKException msg), ins', w')"
  from run_Inl [OF this] run_except_KGTK
  show "\<exists>x0. is_Exception x0 \<and> \<not> exn_is SignalException_SIGPIPE x0 \<and>
              msg = ''INTERNAL ERROR: '' @ str_exn x0 @ [newline]"
    by blast
qed



lemma run_inputs_after:
  "fst (snd (run e inputs outp gz bz2 xz w)) = fst (snd (build_command e inputs outp gz bz2 xz w))"
  by (simp add: run_cases split: prod.splits sum.splits option.splits)

lemma build_command_inputs_after:
  "fst (snd (build_command e i outp gz bz2 xz w)) = (if i = [] then [''-''] else i)"
  by (simp add: build_command_def split_beta Let_def del: build_loop.simps)

lemma build_command_omitted_inputs:
  "build_command_inputs (snd (build_command_omitted e outp gz bz2 xz w)) =
     fst (snd (build_command e (build_command_inputs w) outp gz bz2 xz w))"
  by (cases "build_command e (build_command_inputs w) outp gz bz2 xz w")
     (simp add: build_command_omitted_def)

lemma run_omitted_inputs:
  "run_inputs (snd (run_omitted e outp gz bz2 xz w)) =
     fst (snd (run e (run_inputs w) outp gz bz2 xz w))"
  by (cases "run e (run_inputs w) outp gz bz2 xz w") (simp add: run_omitted_def)

text \<open>
  Claim C10 (the inputs list is mutated).  After \<open>build_command\<close>, and after \<open>run\<close> which
  passes its list on, an empty list of inputs holds the sentinel \<open>-\<close> and a non-empty list
  is unchanged.  With the shared default object: after a first call that leaves \<open>inputs\<close>
  out the default holds \<open>-\<close>, and a second such call finds it there and leaves it so.
\<close>

theorem inputs_list_mutation:
  "fst (snd (build_command e inputs outp gz bz2 xz w)) = (if inputs = [] then [''-''] else inputs)
   \<and> fst (snd (run e inputs outp gz bz2 xz w)) = (if inputs = [] then [''-''] else inputs)
   \<and> (build_command_inputs w = [] \<longrightarrow>
        build_command_inputs (snd (build_command_omitted e outp gz bz2 xz w)) = [''-''] \<and>
        build_command_inputs
          (snd (build_command_omitted e outp' gz' bz2' xz'
                 (snd (build_command_omitted e outp gz bz2 xz w)))) = [''-''])
   \<and> (run_inputs w = [] \<longrightarrow>
        run_inputs (snd (run_omitted e outp gz bz2 xz w)) = [''-''] \<and>
        run_inputs
          (snd (run_omitted e outp' gz' bz2' xz' (snd (run_omitted e outp gz bz2 xz w)))) = [''-''])"
proof (intro conjI impI)
  show "fst (snd (build_command e inputs outp gz bz2 xz w)) = (if inputs = [] then [''-''] else inputs)"
    by (rule build_command_inputs_after)
  show "fst (snd (run e inputs outp gz bz2 xz w)) = (if inputs = [] then [''-''] else inputs)"
    by (simp only: run_inputs_after build_command_inputs_after)
next
  assume d: "build_command_inputs w = []"
  then show 1: "build_command_inputs (snd (build_command_omitted e outp gz bz2 xz w)) = [''-'']"
    by (simp add: build_command_omitted_inputs build_command_inputs_after)
  then show "build_command_inputs
          (snd (build_command_omitted e outp' gz' bz2' xz'
                 (snd (build_command_omitted e outp gz bz2 xz w)))) = [''-'']"
    by (simp add: build_command_omitted_inputs [of e outp' gz' bz2' xz'] build_command_inputs_after)
next
  assume d: "run_inputs w = []"
  then show 1: "run_inputs (snd (run_omitted e outp gz bz2 xz w)) = [''-'']"
    by (simp add: run_omitted_inputs run_inputs_after build_command_inputs_after)
  then show "run_inputs
          (snd (run_omitted e outp' gz' bz2' xz' (snd (run_omitted e outp gz bz2 xz w)))) = [''-'']"
    by (simp add: run_omitted_inputs [of e outp' gz' bz2' xz'] run_inputs_after build_command_inputs_after)
qed

section \<open>Reading a stream and building one pipeline\<close>

lemma readline_append: "readline s = (l, r) \<Longrightarrow> l @ r = s"
  by (induction s arbitrary: l r) (auto split: if_splits prod.splits)

lemma read_lines_append: "read_lines k h s = (h', r) \<Longrightarrow> h' @ r = h @ s"
proof (induction k arbitrary: h s)
  case 0
  then show ?case by simp
next
  case (Suc k)
  obtain l s' where rl: "readline s = (l, s')" by (cases "readline s")
  with Suc.prems have "read_lines k (h @ l) s' = (h', r)" by simp
  then have "h' @ r = (h @ l) @ s'" by (rule Suc.IH)
  with readline_append [OF rl] show ?case by simp
qed

lemma readline_Nil: "readline [] = (l, r) \<Longrightarrow> l = [] \<and> r = []"
  by simp

lemma readline_one_line:
  "s \<noteq> [] \<Longrightarrow> readline s = (l, r) \<Longrightarrow>
     l \<noteq> [] \<and> (last l = newline \<or> r = []) \<and>
     length (filter (\<lambda>c. c = newline) l) + (if last l \<noteq> newline then 1 else 0) = 1"
proof (induction s arbitrary: l r)
  case Nil
  then show ?case by simp
next
  case (Cons c cs)
  show ?case
  proof (cases "c = newline")
    case True
    with Cons.prems show ?thesis by auto
  next
    case False
    obtain l' r' where rl: "readline cs = (l', r')" by (cases "readline cs")
    with False Cons.prems have l: "l = c # l'" and r: "r = r'" by auto
    show ?thesis
    proof (cases "cs = []")
      case True
      with rl l r False show ?thesis by auto
    next
      case False2: False
      from Cons.IH [OF False2 rl] l r False show ?thesis by auto
    qed
  qed
qed

lemma num_lines_step:
  assumes "h = [] \<or> last h = newline" and "l \<noteq> []"
    and "length (filter (\<lambda>c. c = newline) l) + (if last l \<noteq> newline then 1 else 0) = 1"
  shows "num_lines (h @ l) = num_lines h + 1"
  using assms by (auto simp: num_lines_def split: if_splits)

lemma read_lines_count:
  "header_ok h s \<Longrightarrow> read_lines k h s = (h', r) \<Longrightarrow> num_lines h' \<le> num_lines h + k"
proof (induction k arbitrary: h s)
  case 0
  then show ?case by simp
next
  case (Suc k)
  obtain l s' where rl: "readline s = (l, s')" by (cases "readline s")
  with Suc.prems have step: "read_lines k (h @ l) s' = (h', r)" by simp
  show ?case
  proof (cases "s = []")
    case True
    with rl have "l = []" "s' = []" by auto
    with step Suc.IH [of h "[]"] show ?thesis by (simp add: header_ok_def)
  next
    case False
    from readline_one_line [OF False rl] have
      l: "l \<noteq> []" and e: "last l = newline \<or> s' = []"
      and c: "length (filter (\<lambda>c. c = newline) l) + (if last l \<noteq> newline then 1 else 0) = 1"
      by auto
    from False Suc.prems(1) have h: "h = [] \<or> last h = newline" by (simp add: header_ok_def)
    have n: "num_lines (h @ l) = num_lines h + 1" by (rule num_lines_step [OF h l c])
    from l e have ok: "header_ok (h @ l) s'" by (auto simp: header_ok_def)
    from Suc.IH [OF ok step] n show ?thesis by simp
  qed
qed

lemma temp_not_dash: "tmp_dir @ ''/'' @ x \<noteq> ''-''"
  by (simp add: tmp_dir_def)

lemma get_stream_header_preserve:
  assumes "installed e ''cat''"
    and rd: "(if unit = ''line'' then Inr (read_lines (nat n) [] (streams w stream))
            else (case stream_read n (streams w stream) of
                    Inl x \<Rightarrow> Inl x
                  | Inr (h, r) \<Rightarrow> Inr (h, r))) = Inr (header, rest)"
  shows "get_stream_header e stream n unit True w =
     (Inr (header, Some [reconstruct_stage (tmp_dir @ ''/'' @ mkstemp_name e ''kgtk-header.'' (tmp_count w)) stream (2 ^ 16)]),
      w\<lparr>streams := (streams w)(stream := rest),
        files := (files w)(tmp_dir @ ''/'' @ mkstemp_name e ''kgtk-header.'' (tmp_count w) \<mapsto> header),
        tmp_count := Suc (tmp_count w)\<rparr>)"
  unfolding get_stream_header_def rd
  using assms(1) by (simp add: make_temp_file_def sh_getattr_def get_buf_sizes_def Let_def)

lemma cat_output_reconstruct:
  "files w temp = Some header \<Longrightarrow> temp \<noteq> ''-'' \<Longrightarrow>
   cat_output w (reconstruct_stage temp stream b) = header @ streams w stream"
  by (simp add: cat_output_def reconstruct_stage_def bake_def)

lemma get_cat_command_Inr:
  "get_cat_command e t = Inr c \<Longrightarrow> c = Command (cat_name t) \<and> installed e (cat_name t)"
  by (simp add: get_cat_command_def sh_getattr_def split: if_splits)

lemma determine_file_type_Stream:
  "determine_file_type e (Stream b) w = determine_file_type e (Stream b) w'"
  by (simp add: determine_file_type_def file_brief_def)

lemma stream_read_1024: "stream_read 1024 s = Inr (take 1024 s, drop 1024 s)"
  by (simp add: stream_read_def)

lemma get_stream_header_1024:
  "get_stream_header e stream 1024 ''byte'' True w =
     (if installed e ''cat'' then
        (Inr (take 1024 (streams w stream),
              Some [reconstruct_stage (tmp_dir @ ''/'' @ mkstemp_name e ''kgtk-header.'' (tmp_count w)) stream (2 ^ 16)]),
         w\<lparr>streams := (streams w)(stream := drop 1024 (streams w stream)),
           files := (files w)(tmp_dir @ ''/'' @ mkstemp_name e ''kgtk-header.'' (tmp_count w) \<mapsto>
                       take 1024 (streams w stream)),
           tmp_count := Suc (tmp_count w)\<rparr>)
      else
        (Inl (Exn CommandNotFound ''cat''),
         w\<lparr>streams := (streams w)(stream := drop 1024 (streams w stream)),
           files := (files w)(tmp_dir @ ''/'' @ mkstemp_name e ''kgtk-header.'' (tmp_count w) \<mapsto>
                       take 1024 (streams w stream)),
           tmp_count := Suc (tmp_count w)\<rparr>))"
  by (simp add: get_stream_header_def stream_read_1024 make_temp_file_def sh_getattr_def
        get_buf_sizes_def Let_def)

lemma bc1_stdin:
  assumes "input_or_stdin input = ''-''"
    and "build_command_1 e input outp gz bz2 xz piped m w = (Inr cmds, w')"
    and "open_output e outp piped m w = (Inr (o1, f), w1)"
  shows "\<exists>compress tok.
           get_compress_command e (compress_switch_to_file_type gz bz2 xz) = Inr compress \<and>
           determine_file_type e (Stream (take 1024 (streams w1 sys_stdin_buffer))) w1 = Inr tok \<and>
           installed e (cat_name tok) \<and> installed e ''cat'' \<and>
           cmds = reconstruct_stage (tmp_dir @ ''/'' @ mkstemp_name e ''kgtk-header.'' (tmp_count w1))
                     sys_stdin_buffer (2 ^ 16) #
                  tail_stages (Command (cat_name tok)) [] compress o1
                     (snd (get_buf_sizes e o1 (compress = None) piped)) f piped \<and>
           w' = w1\<lparr>streams := (streams w1)(sys_stdin_buffer := drop 1024 (streams w1 sys_stdin_buffer)),
                  files := (files w1)(tmp_dir @ ''/'' @ mkstemp_name e ''kgtk-header.'' (tmp_count w1) \<mapsto>
                       take 1024 (streams w1 sys_stdin_buffer)),
                  tmp_count := Suc (tmp_count w1)\<rparr>"
proof -
  from assms obtain compress where
    c: "get_compress_command e (compress_switch_to_file_type gz bz2 xz) = Inr compress"
    by (cases "get_compress_command e (compress_switch_to_file_type gz bz2 xz)")
       (auto simp: build_command_1_def Let_def)
  from assms c have i: "installed e ''cat''"
    by (cases "installed e ''cat''") (auto simp: build_command_1_def Let_def get_stream_header_1024)
  let ?w2 = "w1\<lparr>streams := (streams w1)(sys_stdin_buffer := drop 1024 (streams w1 sys_stdin_buffer)),
                  files := (files w1)(tmp_dir @ ''/'' @ mkstemp_name e ''kgtk-header.'' (tmp_count w1) \<mapsto>
                       take 1024 (streams w1 sys_stdin_buffer)),
                  tmp_count := Suc (tmp_count w1)\<rparr>"
  from assms c i obtain tok where
    t: "determine_file_type e (Stream (take 1024 (streams w1 sys_stdin_buffer))) ?w2 = Inr tok"
    by (cases "determine_file_type e (Stream (take 1024 (streams w1 sys_stdin_buffer))) ?w2")
       (auto simp: build_command_1_def Let_def get_stream_header_1024)
  from assms c i t obtain catcmd where g: "get_cat_command e tok = Inr catcmd"
    by (cases "get_cat_command e tok")
       (auto simp: build_command_1_def Let_def get_stream_header_1024)
  from get_cat_command_Inr [OF g] have cc: "catcmd = Command (cat_name tok)" "installed e (cat_name tok)"
    by auto
  from assms c i t g cc have
    "cmds = reconstruct_stage (tmp_dir @ ''/'' @ mkstemp_name e ''kgtk-header.'' (tmp_count w1))
                     sys_stdin_buffer (2 ^ 16) #
                  tail_stages (Command (cat_name tok)) [] compress o1
                     (snd (get_buf_sizes e o1 (compress = None) piped)) f piped" and "w' = ?w2"
    by (auto simp: build_command_1_def Let_def get_stream_header_1024)
  with c i cc t determine_file_type_Stream [of e _ ?w2 w1] show ?thesis by auto
qed

lemma bc1_file:
  assumes "input_or_stdin input \<noteq> ''-''"
    and "build_command_1 e input outp gz bz2 xz piped m w = (Inr cmds, w')"
    and "open_output e outp piped m w = (Inr (o1, f), w1)"
  shows "\<exists>compress tok.
           get_compress_command e (compress_switch_to_file_type gz bz2 xz) = Inr compress \<and>
           determine_file_type e (Named (input_or_stdin input)) w1 = Inr tok \<and>
           installed e (cat_name tok) \<and>
           cmds = tail_stages (Command (cat_name tok)) [input_or_stdin input] compress o1
                     (snd (get_buf_sizes e o1 (compress = None) piped)) f piped \<and>
           w' = w1"
proof -
  from assms obtain compress where
    c: "get_compress_command e (compress_switch_to_file_type gz bz2 xz) = Inr compress"
    by (cases "get_compress_command e (compress_switch_to_file_type gz bz2 xz)")
       (auto simp: build_command_1_def Let_def)
  from assms c obtain tok where
    t: "determine_file_type e (Named (input_or_stdin input)) w1 = Inr tok"
    by (cases "determine_file_type e (Named (input_or_stdin input)) w1")
       (auto simp: build_command_1_def Let_def)
  from assms c t obtain catcmd where g: "get_cat_command e tok = Inr catcmd"
    by (cases "get_cat_command e tok") (auto simp: build_command_1_def Let_def)
  from get_cat_command_Inr [OF g] have cc: "catcmd = Command (cat_name tok)" "installed e (cat_name tok)"
    by auto
  from assms c t g cc have
    "cmds = tail_stages (Command (cat_name tok)) [input_or_stdin input] compress o1
                     (snd (get_buf_sizes e o1 (compress = None) piped)) f piped" and "w' = w1"
    by (auto simp: build_command_1_def Let_def)
  with c cc t show ?thesis by auto
qed

lemma get_compress_command_Inr:
  "get_compress_command e t = Inr compress \<Longrightarrow>
     compress = (if t = ''gzip'' \<or> t = ''bzip2'' \<or> t = ''xz'' then Some (Command t) else None)"
  by (auto simp: get_compress_command_def table_get_def compression_type_table_def sh_getattr_def
      split: if_splits)

lemma open_output_cases:
  "open_output e outp piped m w =
     (case output_path outp piped of
        None \<Rightarrow> (Inr (if piped then None else Some Stdout_buffer, None), w)
      | Some p \<Rightarrow>
          (case py_open e p m w of
             (Inl x, w') \<Rightarrow> (Inl x, w')
           | (Inr f, w') \<Rightarrow> (Inr (Some (File f), Some f), w')))"
  by (simp add: open_output_def output_path_def split: option.splits)

lemma py_open_world:
  "py_open e p m w = (r, w1) \<Longrightarrow>
     streams w1 = streams w \<and> tmp_count w1 = tmp_count w \<and> opened w1 = opened w @ [(p, m)] \<and>
     (\<forall>f. r = Inr f \<longrightarrow> f = FileObj (length (opened w)) p m)"
  by (auto simp: py_open_def split: option.splits)

lemma open_output_world:
  "open_output e outp piped m w = (r, w1) \<Longrightarrow>
     streams w1 = streams w \<and> tmp_count w1 = tmp_count w \<and>
     opened w1 = opened w @ (case output_path outp piped of None \<Rightarrow> [] | Some p \<Rightarrow> [(p, m)])"
proof (cases "output_path outp piped")
  case None
  then show "open_output e outp piped m w = (r, w1) \<Longrightarrow> ?thesis"
    by (auto simp: open_output_cases)
next
  case (Some p)
  obtain r0 w0 where po: "py_open e p m w = (r0, w0)" by (cases "py_open e p m w")
  assume "open_output e outp piped m w = (r, w1)"
  with Some po have "w1 = w0" by (cases r0) (auto simp: open_output_cases)
  with py_open_world [OF po] Some show ?thesis by simp
qed

lemma open_output_sink:
  "open_output e outp piped m w = (Inr (o1, f), w1) \<Longrightarrow>
     (case o1 of Some (File fo) \<Rightarrow> [fo_mode fo] | _ \<Rightarrow> []) =
       (case output_path outp piped of None \<Rightarrow> [] | Some p \<Rightarrow> [m])"
proof (cases "output_path outp piped")
  case None
  then show "open_output e outp piped m w = (Inr (o1, f), w1) \<Longrightarrow> ?thesis"
    by (auto simp: open_output_cases split: if_splits)
next
  case (Some p)
  obtain r0 w0 where po: "py_open e p m w = (r0, w0)" by (cases "py_open e p m w")
  assume "open_output e outp piped m w = (Inr (o1, f), w1)"
  with Some po py_open_world [OF po] show ?thesis
    by (cases r0) (auto simp: open_output_cases)
qed

lemma bc1_open_ok:
  assumes "build_command_1 e input outp gz bz2 xz piped m w = (Inr cmds, w')"
  obtains o1 f w1 where "open_output e outp piped m w = (Inr (o1, f), w1)"
proof -
  obtain r w1 where oo: "open_output e outp piped m w = (r, w1)"
    by (cases "open_output e outp piped m w")
  with assms obtain o1 f where "r = Inr (o1, f)"
    by (cases r) (auto simp: build_command_1_def Let_def)
  with oo that show ?thesis by blast
qed

lemma sink_modes_append: "sink_modes (a @ b) = sink_modes a @ sink_modes b"
  by (induction a) (auto split: option.splits sink.splits)

lemma sink_modes_tail:
  "sink_modes (tail_stages c a compress o1 b f piped) =
     (case o1 of Some (File fo) \<Rightarrow> [fo_mode fo] | _ \<Rightarrow> [])"
  by (cases c) (auto simp: tail_stages_def bake_def split: option.splits sink.splits)

lemma reconstruct_fields:
  "s_out (reconstruct_stage t k b) = None" "s_in (reconstruct_stage t k b) = Some k"
  "prog (reconstruct_stage t k b) = ''cat''" "args (reconstruct_stage t k b) = [t, ''-'']"
  by (simp_all add: reconstruct_stage_def bake_def)

lemma bc1_opened:
  "opened (snd (build_command_1 e input outp gz bz2 xz piped m w)) =
     opened w @ (case output_path outp piped of None \<Rightarrow> [] | Some p \<Rightarrow> [(p, m)])"
proof -
  obtain r w1 where oo: "open_output e outp piped m w = (r, w1)"
    by (cases "open_output e outp piped m w")
  from open_output_world [OF oo] have
    "opened w1 = opened w @ (case output_path outp piped of None \<Rightarrow> [] | Some p \<Rightarrow> [(p, m)])"
    by simp
  moreover have "opened (snd (build_command_1 e input outp gz bz2 xz piped m w)) = opened w1"
  proof (cases r)
    case (Inl x)
    with oo show ?thesis by (simp add: build_command_1_def Let_def)
  next
    case (Inr of1)
    obtain o1 f where "of1 = (o1, f)" by (cases of1)
    with Inr oo show ?thesis
      by (simp add: build_command_1_def Let_def get_stream_header_1024 split: sum.splits)
  qed
  ultimately show ?thesis by simp
qed

lemma bc1_sink_modes:
  assumes "build_command_1 e input outp gz bz2 xz piped m w = (Inr cmds, w')"
  shows "sink_modes cmds = (case output_path outp piped of None \<Rightarrow> [] | Some p \<Rightarrow> [m])"
proof -
  from assms obtain o1 f w1 where oo: "open_output e outp piped m w = (Inr (o1, f), w1)"
    by (rule bc1_open_ok)
  note o1 = open_output_sink [OF oo]
  show ?thesis
  proof (cases "input_or_stdin input = ''-''")
    case True
    from bc1_stdin [OF True assms oo] o1 show ?thesis
      by (auto simp: sink_modes_tail reconstruct_fields)
  next
    case False
    from bc1_file [OF False assms oo] o1 show ?thesis
      by (auto simp: sink_modes_tail)
  qed
qed

section \<open>The header peek\<close>

lemma read_unit:
  assumes "0 \<le> n"
  shows "\<exists>header rest.
     (if unit = ''line'' then Inr (read_lines (nat n) [] s)
      else (case stream_read n s of Inl x \<Rightarrow> Inl x | Inr (h, r) \<Rightarrow> Inr (h, r))) = Inr (header, rest)
     \<and> header @ rest = s
     \<and> (if unit = ''line'' then num_lines header \<le> nat n else length header \<le> nat n)"
proof (cases "unit = ''line''")
  case True
  obtain h r where rl: "read_lines (nat n) [] s = (h, r)" by (cases "read_lines (nat n) [] s")
  have ok: "header_ok [] s" by (simp add: header_ok_def)
  from read_lines_count [OF ok rl] have "num_lines h \<le> nat n" by (simp add: num_lines_def)
  with read_lines_append [OF rl] True rl show ?thesis by auto
next
  case False
  with assms show ?thesis by (auto simp: stream_read_def)
qed

text \<open>
  Claim C1 (header-peek round trip).  For every stream and probe size \<open>n \<ge> 0\<close>, with
  \<open>cat\<close> on the path, \<open>get_stream_header\<close> with \<open>preserve=True\<close> returns a header of at
  most \<open>n\<close> units (lines or bytes) and one \<open>cat\<close> command whose output is the header
  followed by the unread rest of the stream, which together are the stream as it was:
  nothing is lost or duplicated, also when the stream holds fewer than \<open>n\<close> units.  For the
  standard input \<open>build_command_1\<close> peeks 1024 bytes: the temporary file holds the first
  1024 bytes, the stream is advanced by as many, and the first command of the pipeline
  replays the whole standard input.
\<close>

theorem header_peek_round_trip:
  assumes "0 \<le> n" and "installed e ''cat''"
  shows "(\<exists>header st w'.
            get_stream_header e stream n unit True w = (Inr (header, Some [st]), w') \<and>
            prog st = ''cat'' \<and>
            (if unit = ''line'' then num_lines header \<le> nat n else length header \<le> nat n) \<and>
            cat_output w' st = header @ streams w' stream \<and>
            header @ streams w' stream = streams w stream)
       \<and> (input_or_stdin input = ''-'' \<and>
          build_command_1 e input outp gz bz2 xz piped m w = (Inr cmds, w1) \<longrightarrow>
            (\<exists>temp rest.
               cmds = reconstruct_stage temp sys_stdin_buffer (2 ^ 16) # rest \<and>
               files w1 temp = Some (take 1024 (streams w sys_stdin_buffer)) \<and>
               streams w1 sys_stdin_buffer = drop 1024 (streams w sys_stdin_buffer) \<and>
               cat_output w1 (reconstruct_stage temp sys_stdin_buffer (2 ^ 16)) =
                 streams w sys_stdin_buffer))"
proof
  let ?temp = "tmp_dir @ ''/'' @ mkstemp_name e ''kgtk-header.'' (tmp_count w)"
  from read_unit [OF assms(1), of unit "streams w stream"] obtain header rest where
    rd: "(if unit = ''line'' then Inr (read_lines (nat n) [] (streams w stream))
          else (case stream_read n (streams w stream) of
                  Inl x \<Rightarrow> Inl x | Inr (h, r) \<Rightarrow> Inr (h, r))) = Inr (header, rest)"
    and app: "header @ rest = streams w stream"
    and units: "if unit = ''line'' then num_lines header \<le> nat n else length header \<le> nat n"
    by blast
  let ?w' = "w\<lparr>streams := (streams w)(stream := rest), files := (files w)(?temp \<mapsto> header),
                tmp_count := Suc (tmp_count w)\<rparr>"
  have g: "get_stream_header e stream n unit True w =
             (Inr (header, Some [reconstruct_stage ?temp stream (2 ^ 16)]), ?w')"
    by (rule get_stream_header_preserve [OF assms(2) rd])
  have c: "cat_output ?w' (reconstruct_stage ?temp stream (2 ^ 16)) = header @ streams ?w' stream"
    by (rule cat_output_reconstruct [OF _ temp_not_dash]) simp
  have s: "streams ?w' stream = rest" by simp
  show "\<exists>header st w'.
            get_stream_header e stream n unit True w = (Inr (header, Some [st]), w') \<and>
            prog st = ''cat'' \<and>
            (if unit = ''line'' then num_lines header \<le> nat n else length header \<le> nat n) \<and>
            cat_output w' st = header @ streams w' stream \<and>
            header @ streams w' stream = streams w stream"
    using g c units app s reconstruct_fields(3) [of ?temp stream "2 ^ 16"] by metis
next
  show "input_or_stdin input = ''-'' \<and>
          build_command_1 e input outp gz bz2 xz piped m w = (Inr cmds, w1) \<longrightarrow>
            (\<exists>temp rest.
               cmds = reconstruct_stage temp sys_stdin_buffer (2 ^ 16) # rest \<and>
               files w1 temp = Some (take 1024 (streams w sys_stdin_buffer)) \<and>
               streams w1 sys_stdin_buffer = drop 1024 (streams w sys_stdin_buffer) \<and>
               cat_output w1 (reconstruct_stage temp sys_stdin_buffer (2 ^ 16)) =
                 streams w sys_stdin_buffer)"
  proof
    assume a: "input_or_stdin input = ''-'' \<and>
          build_command_1 e input outp gz bz2 xz piped m w = (Inr cmds, w1)"
    from conjunct2 [OF a] obtain o1 f w0 where oo: "open_output e outp piped m w = (Inr (o1, f), w0)"
      by (rule bc1_open_ok)
    from open_output_world [OF oo] have sw: "streams w0 = streams w" by simp
    let ?temp = "tmp_dir @ ''/'' @ mkstemp_name e ''kgtk-header.'' (tmp_count w0)"
    from bc1_stdin [OF conjunct1 [OF a] conjunct2 [OF a] oo] obtain rest where
      cm: "cmds = reconstruct_stage ?temp sys_stdin_buffer (2 ^ 16) # rest"
      and w1: "w1 = w0\<lparr>streams := (streams w0)(sys_stdin_buffer := drop 1024 (streams w0 sys_stdin_buffer)),
                  files := (files w0)(?temp \<mapsto> take 1024 (streams w0 sys_stdin_buffer)),
                  tmp_count := Suc (tmp_count w0)\<rparr>"
      by blast
    from w1 sw have fl: "files w1 ?temp = Some (take 1024 (streams w sys_stdin_buffer))"
      and st: "streams w1 sys_stdin_buffer = drop 1024 (streams w sys_stdin_buffer)"
      by simp_all
    have "cat_output w1 (reconstruct_stage ?temp sys_stdin_buffer (2 ^ 16)) =
            take 1024 (streams w sys_stdin_buffer) @ streams w1 sys_stdin_buffer"
      by (rule cat_output_reconstruct [OF fl temp_not_dash])
    with st have "cat_output w1 (reconstruct_stage ?temp sys_stdin_buffer (2 ^ 16)) =
            streams w sys_stdin_buffer" by simp
    with cm fl st show "\<exists>temp rest.
               cmds = reconstruct_stage temp sys_stdin_buffer (2 ^ 16) # rest \<and>
               files w1 temp = Some (take 1024 (streams w sys_stdin_buffer)) \<and>
               streams w1 sys_stdin_buffer = drop 1024 (streams w sys_stdin_buffer) \<and>
               cat_output w1 (reconstruct_stage temp sys_stdin_buffer (2 ^ 16)) =
                 streams w sys_stdin_buffer"
      by blast
  qed
qed

section \<open>The concrete environment, evaluated\<close>

lemma ex_getattr: "sh_getattr example_env n = Inr (Command n)"
  by (simp add: sh_getattr_def example_env_def)

lemma ex_bake_ok: "bake_ok example_env a b c d"
  by (simp add: example_env_def)

lemma ex_sh_call: "sh_call example_env = example_call"
  by (simp add: example_env_def)

lemma ex_compress_text: "get_compress_command example_env ''text'' = Inr None"
  by (simp add: get_compress_command_def table_get_def compression_type_table_def)

lemma ex_compress_gzip: "get_compress_command example_env ''gzip'' = Inr (Some (Command ''gzip''))"
  by (simp add: get_compress_command_def table_get_def compression_type_table_def ex_getattr)

lemma ex_split: "py_split ''ASCII text'' = [''ASCII'', ''text'']"
  by (simp add: py_split_def is_space_def)

lemma ex_lower: "py_lower ''ASCII'' = ''ascii''"
  by code_simp

lemma ex_valid: "utf8_valid ''ascii''"
  by code_simp

lemma ex_first_word: "spec_first_word ''ASCII text'' = ''ASCII''"
  by (simp add: spec_first_word_def is_space_def)

lemma ex_file_path:
  "p \<noteq> ''/tmp/out.gz'' \<Longrightarrow> file_brief example_env (Named p) w = Inr ''ASCII text''"
  by (simp add: example_env_def file_brief_def)

lemma ex_type_text:
  "p \<noteq> ''/tmp/out.gz'' \<Longrightarrow> determine_file_type example_env (Named p) w = Inr ''ascii''"
  by (simp add: determine_file_type_def ex_file_path ex_split ex_lower py_decode_def ex_valid)

lemma ex_bc1_text:
  "p \<noteq> [] \<Longrightarrow> p \<noteq> ''-'' \<Longrightarrow> p \<noteq> ''/tmp/out.gz'' \<Longrightarrow>
   build_command_1 example_env (Some p) None False False False False m w =
     (Inr (tail_stages (Command ''cat'') [p] None (Some Stdout_buffer) (Some 65536) None False), w)"
  by (simp add: build_command_1_def input_or_stdin_def open_output_def compress_switch_to_file_type_def
       ex_compress_text ex_type_text get_cat_command_def cat_name_cases
       ex_getattr get_buf_sizes_def ex_bake_ok Let_def)

lemma ex_build_closed:
  "build_command example_env [''/tmp/closed''] None False False False w =
     (Inr (tail_stages (Command ''cat'') [''/tmp/closed''] None (Some Stdout_buffer) (Some 65536) None False),
      [''/tmp/closed''], w)"
  by (simp add: build_command_def ex_bc1_text Let_def)

lemma ex_run_closed:
  "run_sh_commands example_env
     (tail_stages (Command ''cat'') [''/tmp/closed''] None (Some Stdout_buffer) (Some 65536) None False) w =
     (Inl (Exn SignalException_SIGPIPE ''RAN: cat /tmp/closed''),
      w\<lparr>launched := launched w @
          tail_stages (Command ''cat'') [''/tmp/closed''] None (Some Stdout_buffer) (Some 65536) None False\<rparr>)"
  by (simp add: run_sh_commands_def tail_stages_def ex_sh_call example_call_def bake_def)

lemma ex_build_slow:
  "build_command example_env [''/tmp/slow''] None False False False w =
     (Inr (tail_stages (Command ''cat'') [''/tmp/slow''] None (Some Stdout_buffer) (Some 65536) None False),
      [''/tmp/slow''], w)"
  by (simp add: build_command_def ex_bc1_text Let_def)

lemma ex_run_slow:
  "run_sh_commands example_env
     (tail_stages (Command ''cat'') [''/tmp/slow''] None (Some Stdout_buffer) (Some 65536) None False) w =
     (Inl (Exn KeyboardInterrupt []),
      w\<lparr>launched := launched w @
          tail_stages (Command ''cat'') [''/tmp/slow''] None (Some Stdout_buffer) (Some 65536) None False\<rparr>)"
  by (simp add: run_sh_commands_def tail_stages_def ex_sh_call example_call_def bake_def)

lemma ex_run_slow_all:
  "run example_env [''/tmp/slow''] None False False False w =
     (Inl (Uncaught (Exn KeyboardInterrupt [])), [''/tmp/slow''],
      w\<lparr>launched := launched w @
          tail_stages (Command ''cat'') [''/tmp/slow''] None (Some Stdout_buffer) (Some 65536) None False\<rparr>)"
  by (simp add: run_cases ex_build_slow ex_run_slow run_except_def)

lemma ex_run_closed_all:
  "run example_env [''/tmp/closed''] None False False False w =
     (fst (run_except (Exn SignalException_SIGPIPE ''RAN: cat /tmp/closed'')
             (w\<lparr>launched := launched w @
                tail_stages (Command ''cat'') [''/tmp/closed''] None (Some Stdout_buffer) (Some 65536)
                  None False\<rparr>)),
      [''/tmp/closed''],
      snd (run_except (Exn SignalException_SIGPIPE ''RAN: cat /tmp/closed'')
             (w\<lparr>launched := launched w @
                tail_stages (Command ''cat'') [''/tmp/closed''] None (Some Stdout_buffer) (Some 65536)
                  None False\<rparr>)))"
  by (simp add: run_cases ex_build_closed ex_run_closed)

text \<open>
  The failing input of claim C6: the decoder of \<open>/tmp/closed\<close> is killed by SIGPIPE while
  text is pending in \<open>sys.stdout\<close> and the reader has closed its end.  The flush in the
  handler raises \<open>BrokenPipeError\<close>, which leaves \<open>run\<close>.  With the reader still there,
  the same run returns \<open>None\<close>.
\<close>

theorem downstream_closed_handler_witness:
  "fst (run example_env [''/tmp/closed''] None False False False
          (example_world\<lparr>stdout_closed := True\<rparr>)) =
     Inl (Uncaught (Exn BrokenPipeError ''[Errno 32] Broken pipe''))
   \<and> fst (run example_env [''/tmp/closed''] None False False False example_world) = Inr None"
proof -
  let ?x = "Exn SignalException_SIGPIPE ''RAN: cat /tmp/closed''"
  let ?c = "tail_stages (Command ''cat'') [''/tmp/closed''] None (Some Stdout_buffer) (Some 65536) None False"
  have x: "exn_is SignalException_SIGPIPE ?x" by simp
  have body: "build_command example_env [''/tmp/closed''] None False False False w =
                (Inl ?x, [''/tmp/closed''], w\<lparr>launched := launched w @ ?c\<rparr>) \<or>
              (\<exists>cmds w1. build_command example_env [''/tmp/closed''] None False False False w =
                   (Inr cmds, [''/tmp/closed''], w1) \<and>
                 run_sh_commands example_env cmds w1 = (Inl ?x, w\<lparr>launched := launched w @ ?c\<rparr>))"
    for w
    using ex_build_closed [of w] ex_run_closed [of w] by blast
  let ?w = "example_world\<lparr>stdout_closed := True\<rparr>"
  have p: "stdout_pending (?w\<lparr>launched := launched ?w @ ?c\<rparr>) \<noteq> [] \<and>
           stdout_closed (?w\<lparr>launched := launched ?w @ ?c\<rparr>)"
    by (simp add: example_world_def)
  have q: "stdout_pending (example_world\<lparr>launched := launched example_world @ ?c\<rparr>) = [] \<or>
           \<not> stdout_closed (example_world\<lparr>launched := launched example_world @ ?c\<rparr>)"
    by (simp add: example_world_def)
  have 1: "run example_env [''/tmp/closed''] None False False False ?w =
             (Inl (Uncaught (Exn BrokenPipeError ''[Errno 32] Broken pipe'')), [''/tmp/closed''],
              ?w\<lparr>launched := launched ?w @ ?c\<rparr>)"
    by (rule downstream_closed_handler [OF x body, THEN conjunct2, THEN conjunct1, THEN mp, OF p])
  have 2: "fst (run example_env [''/tmp/closed''] None False False False example_world) = Inr None"
    by (rule downstream_closed_handler [OF x body, THEN conjunct2, THEN conjunct2, THEN mp, OF q,
          THEN conjunct1])
  from 1 2 show ?thesis by simp
qed

lemma ex_build_broken:
  "build_command example_env [''/tmp/broken'', ''/tmp/file1''] None False False False w =
     (Inr (tail_stages (Command ''cat'') [''/tmp/broken''] None (Some Stdout_buffer) (Some 65536) None False @
           tail_stages (Command ''cat'') [''/tmp/file1''] None (Some Stdout_buffer) (Some 65536) None False),
      [''/tmp/broken'', ''/tmp/file1''], w)"
  by (simp add: build_command_def ex_bc1_text Let_def)

lemma ex_run_broken:
  "run_sh_commands example_env
     (tail_stages (Command ''cat'') [''/tmp/broken''] None (Some Stdout_buffer) (Some 65536) None False @ rest) w =
     (Inl (Exn ErrorReturnCode ''RAN: cat /tmp/broken''),
      w\<lparr>launched := launched w @
          tail_stages (Command ''cat'') [''/tmp/broken''] None (Some Stdout_buffer) (Some 65536) None False\<rparr>)"
  by (simp add: run_sh_commands_def tail_stages_def ex_sh_call example_call_def bake_def)

text \<open>
  An instance on the concrete environment.
\<close>

theorem exception_wrapping_witness:
  "fst (run example_env [''/tmp/broken'', ''/tmp/file1''] None False False False example_world) =
     Inl (KGTKException (''INTERNAL ERROR: RAN: cat /tmp/broken'' @ [newline]))"
proof -
  let ?x = "Exn ErrorReturnCode ''RAN: cat /tmp/broken''"
  let ?a = "tail_stages (Command ''cat'') [''/tmp/broken''] None (Some Stdout_buffer) (Some 65536) None False"
  let ?b = "tail_stages (Command ''cat'') [''/tmp/file1''] None (Some Stdout_buffer) (Some 65536) None False"
  let ?w2 = "example_world\<lparr>launched := launched example_world @ ?a\<rparr>"
  have x: "is_Exception ?x \<and> \<not> exn_is SignalException_SIGPIPE ?x"
    by simp
  have b: "build_command example_env [''/tmp/broken'', ''/tmp/file1''] None False False False example_world =
             (Inr (?a @ ?b), [''/tmp/broken'', ''/tmp/file1''], example_world)"
    by (rule ex_build_broken)
  have r: "run_sh_commands example_env (?a @ ?b) example_world = (Inl ?x, ?w2)"
    by (rule ex_run_broken)
  from b r have body:
    "build_command example_env [''/tmp/broken'', ''/tmp/file1''] None False False False example_world =
       (Inl ?x, [''/tmp/broken'', ''/tmp/file1''], ?w2) \<or>
     (\<exists>cmds w1. build_command example_env [''/tmp/broken'', ''/tmp/file1''] None False False False
                   example_world = (Inr cmds, [''/tmp/broken'', ''/tmp/file1''], w1) \<and>
                run_sh_commands example_env cmds w1 = (Inl ?x, ?w2))"
    by blast
  have "run example_env [''/tmp/broken'', ''/tmp/file1''] None False False False example_world =
          (Inl (KGTKException (''INTERNAL ERROR: '' @ str_exn ?x @ [newline])),
           [''/tmp/broken'', ''/tmp/file1''], ?w2)"
    by (rule exception_wrapping [THEN conjunct1, THEN mp, OF conjI [OF body x]])
  then show ?thesis by simp
qed

text \<open>
  Claim C9 as stated fails: a \<open>KeyboardInterrupt\<close> raised while the decoder of \<open>/tmp/slow\<close>
  runs is no \<open>Exception\<close> and leaves \<open>run\<close> as it is, not as a \<open>KGTKException\<close>; and the
  \<open>BrokenPipeError\<close> that the flush raises inside the SIGPIPE handler leaves \<open>run\<close> as it
  is too.
\<close>

theorem exception_leaks_unwrapped:
  "fst (run example_env [''/tmp/slow''] None False False False example_world) =
     Inl (Uncaught (Exn KeyboardInterrupt []))
   \<and> fst (run example_env [''/tmp/closed''] None False False False
            (example_world\<lparr>stdout_closed := True\<rparr>)) =
       Inl (Uncaught (Exn BrokenPipeError ''[Errno 32] Broken pipe''))"
  by (simp add: ex_run_slow_all ex_run_closed_all run_except_def stdout_flush_def example_world_def)



section \<open>The write modes of the output\<close>

lemma build_loop_modes:
  "build_loop e inputs outp gz bz2 xz m cmd w = (r, w') \<Longrightarrow>
     \<exists>k\<le>length inputs.
        (inputs \<noteq> [] \<longrightarrow> 1 \<le> k) \<and>
        opened w' = opened w @
          (case output_path outp False of
             None \<Rightarrow> []
           | Some p \<Rightarrow> map (Pair p) (take k (m # replicate (length inputs - 1) ''ab''))) \<and>
        (\<forall>cmds. r = Inr cmds \<longrightarrow>
           k = length inputs \<and>
           sink_modes cmds = sink_modes cmd @
             (case output_path outp False of
                None \<Rightarrow> []
              | Some p \<Rightarrow> take (length inputs) (m # replicate (length inputs - 1) ''ab'')))"
proof (induction inputs arbitrary: m cmd w)
  case Nil
  then show ?case by (auto split: option.splits)
next
  case (Cons inp inputs)
  obtain r1 w1 where b1: "build_command_1 e (Some inp) outp gz bz2 xz False m w = (r1, w1)"
    by (cases "build_command_1 e (Some inp) outp gz bz2 xz False m w")
  from bc1_opened [of e "Some inp" outp gz bz2 xz False m w] b1 have
    o1: "opened w1 = opened w @ (case output_path outp False of None \<Rightarrow> [] | Some p \<Rightarrow> [(p, m)])"
    by simp
  show ?case
  proof (cases r1)
    case (Inl x)
    with Cons.prems b1 have "r = Inl x" "w' = w1" by auto
    with o1 show ?thesis
      by (intro exI [of _ 1]) (auto split: option.splits)
  next
    case (Inr cs)
    with Cons.prems b1 have
      bl: "build_loop e inputs outp gz bz2 xz ''ab'' (cmd @ cs) w1 = (r, w')" by simp
    from bc1_sink_modes [OF b1 [unfolded Inr]] have
      sm: "sink_modes cs = (case output_path outp False of None \<Rightarrow> [] | Some p \<Rightarrow> [m])" .
    from Cons.IH [OF bl] obtain k where
      k: "k \<le> length inputs"
      and ow: "opened w' = opened w1 @
          (case output_path outp False of
             None \<Rightarrow> []
           | Some p \<Rightarrow> map (Pair p) (take k (''ab'' # replicate (length inputs - 1) ''ab'')))"
      and rr: "\<forall>cmds. r = Inr cmds \<longrightarrow>
           k = length inputs \<and>
           sink_modes cmds = sink_modes (cmd @ cs) @
             (case output_path outp False of
                None \<Rightarrow> []
              | Some p \<Rightarrow> take (length inputs) (''ab'' # replicate (length inputs - 1) ''ab''))"
      by blast
    have t: "take j (''ab'' # replicate (length inputs - 1) ''ab'') = take j (replicate (length inputs) ''ab'')"
      if "j \<le> length inputs" for j
      using that by (cases inputs) auto
    show ?thesis
    proof (intro exI [of _ "Suc k"] conjI)
      show "Suc k \<le> length (inp # inputs)" using k by simp
      show "inp # inputs \<noteq> [] \<longrightarrow> 1 \<le> Suc k" by simp
      show "opened w' = opened w @
          (case output_path outp False of
             None \<Rightarrow> []
           | Some p \<Rightarrow> map (Pair p) (take (Suc k) (m # replicate (length (inp # inputs) - 1) ''ab'')))"
        using ow o1 t [OF k] by (auto split: option.splits)
      show "\<forall>cmds. r = Inr cmds \<longrightarrow>
           Suc k = length (inp # inputs) \<and>
           sink_modes cmds = sink_modes cmd @
             (case output_path outp False of
                None \<Rightarrow> []
              | Some p \<Rightarrow> take (length (inp # inputs)) (m # replicate (length (inp # inputs) - 1) ''ab''))"
        using rr sm t [of "length inputs"] by (auto simp: sink_modes_append split: option.splits)
    qed
  qed
qed

text \<open>
  Claim C2 (output write-mode law).  When \<open>build_command\<close> writes to a named file, the
  calls of \<open>open\<close> it makes on it are one in mode \<open>wb\<close> followed by calls in mode \<open>ab\<close>
  only, one call per input processed; when it returns a plan, every input has been
  processed and the file objects that the plan writes to have the modes \<open>wb\<close>, \<open>ab\<close>,
  \<open>ab\<close>, ... in the order of the inputs, whatever the inputs contain and whichever
  compression is requested.  With the standard output as target nothing is opened.
\<close>

theorem output_write_mode_law:
  assumes "build_command e inputs outp gz bz2 xz w = (r, ins, w')"
  shows "(output_path outp False = None \<longrightarrow>
            opened w' = opened w \<and> (\<forall>cmds. r = Inr cmds \<longrightarrow> sink_modes cmds = []))
       \<and> (\<forall>p. output_path outp False = Some p \<longrightarrow>
            (\<exists>k. 1 \<le> k \<and> k \<le> length ins \<and>
                 opened w' = opened w @ map (Pair p) (''wb'' # replicate (k - 1) ''ab'') \<and>
                 (\<forall>cmds. r = Inr cmds \<longrightarrow>
                    k = length ins \<and>
                    sink_modes cmds = ''wb'' # replicate (length ins - 1) ''ab'')))"
proof -
  from assms have ins: "ins = (if length inputs = 0 then inputs @ [''-''] else inputs)"
    and bl: "build_loop e ins outp gz bz2 xz ''wb'' [] w = (r, w')"
    by (auto simp: build_command_def Let_def split: prod.splits)
  from ins have ne: "ins \<noteq> []" by (auto split: if_splits)
  from build_loop_modes [OF bl] ne obtain k where
    k: "k \<le> length ins" "1 \<le> k"
    and ow: "opened w' = opened w @
          (case output_path outp False of
             None \<Rightarrow> []
           | Some p \<Rightarrow> map (Pair p) (take k (''wb'' # replicate (length ins - 1) ''ab'')))"
    and rr: "\<forall>cmds. r = Inr cmds \<longrightarrow>
           k = length ins \<and>
           sink_modes cmds = sink_modes [] @
             (case output_path outp False of
                None \<Rightarrow> []
              | Some p \<Rightarrow> take (length ins) (''wb'' # replicate (length ins - 1) ''ab''))"
    by blast
  from k have tk: "take k (''wb'' # replicate (length ins - 1) ''ab'') = ''wb'' # replicate (k - 1) ''ab''"
    by (cases k) (auto simp: min_def)
  from ne have tl: "take (length ins) (''wb'' # replicate (length ins - 1) ''ab'') =
                     ''wb'' # replicate (length ins - 1) ''ab''"
    by (cases ins) auto
  show ?thesis
  proof (intro conjI allI impI)
    assume "output_path outp False = None"
    with ow show "opened w' = opened w" by simp
  next
    fix cmds assume "output_path outp False = None" "r = Inr cmds"
    with rr show "sink_modes cmds = []" by simp
  next
    fix p assume p: "output_path outp False = Some p"
    show "\<exists>k. 1 \<le> k \<and> k \<le> length ins \<and>
                 opened w' = opened w @ map (Pair p) (''wb'' # replicate (k - 1) ''ab'') \<and>
                 (\<forall>cmds. r = Inr cmds \<longrightarrow>
                    k = length ins \<and>
                    sink_modes cmds = ''wb'' # replicate (length ins - 1) ''ab'')"
      using k ow rr p tk tl by (intro exI [of _ k]) (simp del: take_Cons')
  qed
qed

section \<open>The stages of a pipeline\<close>

lemma cstf_cases:
  "compress_switch_to_file_type gz bz2 xz = ''gzip'' \<or>
   compress_switch_to_file_type gz bz2 xz = ''bzip2'' \<or>
   compress_switch_to_file_type gz bz2 xz = ''xz'' \<or>
   compress_switch_to_file_type gz bz2 xz = ''text''"
  by (simp add: compress_switch_to_file_type_def)

lemma bc1_shape:
  assumes "build_command_1 e input outp gz bz2 xz piped m w = (Inr cmds, w')"
  shows "\<exists>tok pre dec.
           sniffed_file_type e input outp piped m w = Inr tok \<and>
           (if input_or_stdin input = ''-''
            then (\<exists>temp. pre = [reconstruct_stage temp sys_stdin_buffer (2 ^ 16)])
            else pre = []) \<and>
           prog dec = cat_name tok \<and> s_in dec = None \<and>
           args dec = (if input_or_stdin input = ''-'' then [] else [input_or_stdin input]) \<and>
           (if compress_switch_to_file_type gz bz2 xz = ''text''
            then cmds = pre @ [dec] \<and> (\<exists>f. fst (open_output e outp piped m w) = Inr (s_out dec, f))
            else (\<exists>enc. cmds = pre @ [dec, enc] \<and> s_piped dec = Some True \<and> s_out dec = None \<and>
                    prog enc = compress_switch_to_file_type gz bz2 xz \<and> args enc = [''-c''] \<and>
                    s_in enc = None \<and> (\<exists>f. fst (open_output e outp piped m w) = Inr (s_out enc, f))))"
proof -
  from assms obtain o1 f w1 where oo: "open_output e outp piped m w = (Inr (o1, f), w1)"
    by (rule bc1_open_ok)
  show ?thesis
  proof (cases "input_or_stdin input = ''-''")
    case True
    from bc1_stdin [OF True assms oo] obtain compress tok where
      c: "get_compress_command e (compress_switch_to_file_type gz bz2 xz) = Inr compress"
      and t: "determine_file_type e (Stream (take 1024 (streams w1 sys_stdin_buffer))) w1 = Inr tok"
      and cm: "cmds = reconstruct_stage (tmp_dir @ ''/'' @ mkstemp_name e ''kgtk-header.'' (tmp_count w1))
                     sys_stdin_buffer (2 ^ 16) #
                  tail_stages (Command (cat_name tok)) [] compress o1
                     (snd (get_buf_sizes e o1 (compress = None) piped)) f piped"
      by blast
    from t True oo have sn: "sniffed_file_type e input outp piped m w = Inr tok"
      by (simp add: sniffed_file_type_def)
    from get_compress_command_Inr [OF c] cstf_cases [of gz bz2 xz] cm sn True oo show ?thesis
      by (cases "compress_switch_to_file_type gz bz2 xz = ''text''")
         (auto simp: tail_stages_def bake_def)
  next
    case False
    from bc1_file [OF False assms oo] obtain compress tok where
      c: "get_compress_command e (compress_switch_to_file_type gz bz2 xz) = Inr compress"
      and t: "determine_file_type e (Named (input_or_stdin input)) w1 = Inr tok"
      and cm: "cmds = tail_stages (Command (cat_name tok)) [input_or_stdin input] compress o1
                     (snd (get_buf_sizes e o1 (compress = None) piped)) f piped"
      by blast
    from t False oo have sn: "sniffed_file_type e input outp piped m w = Inr tok"
      by (simp add: sniffed_file_type_def)
    from get_compress_command_Inr [OF c] cstf_cases [of gz bz2 xz] cm sn False oo show ?thesis
      by (cases "compress_switch_to_file_type gz bz2 xz = ''text''")
         (auto simp: tail_stages_def bake_def)
  qed
qed

lemma cat_name_decode: "cat_name t \<in> set decode_programs"
  by (simp add: cat_name_cases decode_programs_def)

lemma cat_name_not_encode: "cat_name t \<notin> set encode_programs"
  by (simp add: cat_name_cases encode_programs_def)

lemma cstf_not_decode: "compress_switch_to_file_type gz bz2 xz \<notin> set decode_programs"
  by (simp add: compress_switch_to_file_type_def decode_programs_def)

lemma cstf_encode:
  "compress_switch_to_file_type gz bz2 xz \<noteq> ''text'' \<Longrightarrow>
   compress_switch_to_file_type gz bz2 xz \<in> set encode_programs"
  by (simp add: compress_switch_to_file_type_def encode_programs_def split: if_splits)

lemma decode_stages_pre:
  "(if b then (\<exists>temp. pre = [reconstruct_stage temp sys_stdin_buffer (2 ^ 16)]) else pre = []) \<Longrightarrow>
   decode_stages (pre @ sts) = decode_stages sts \<and> encode_stages (pre @ sts) = encode_stages sts"
  by (auto simp: decode_stages_def encode_stages_def reconstruct_fields encode_programs_def
      split: if_splits)

text \<open>
  Claim C4, amended (decode stage).  Every pipeline that \<open>build_command_1\<close> returns has
  exactly one decode stage, which runs the decode program of the sniffed type on the
  source (or on the replayed standard input); for a type other than \<open>gzip\<close>, \<open>bzip2\<close>
  and \<open>xz\<close>, that is for text, the program is plain \<open>cat\<close>, and when no compression is
  requested this stage is the last one and writes to the output.  So no pipeline has zero
  decode stages.
\<close>

theorem decode_stage_always_present:
  assumes "build_command_1 e input outp gz bz2 xz piped m w = (Inr cmds, w')"
  shows "\<exists>tok dec.
           sniffed_file_type e input outp piped m w = Inr tok \<and>
           decode_stages cmds = [dec] \<and>
           prog dec = cat_name tok \<and>
           (tok \<noteq> ''gzip'' \<and> tok \<noteq> ''bzip2'' \<and> tok \<noteq> ''xz'' \<longrightarrow> prog dec = ''cat'') \<and>
           args dec = (if input_or_stdin input = ''-'' then [] else [input_or_stdin input]) \<and>
           (compress_switch_to_file_type gz bz2 xz = ''text'' \<longrightarrow>
              encode_stages cmds = [] \<and> last cmds = dec \<and>
              (\<exists>f. fst (open_output e outp piped m w) = Inr (s_out dec, f)))"
proof -
  from bc1_shape [OF assms] obtain tok pre dec where
    sn: "sniffed_file_type e input outp piped m w = Inr tok"
    and pre: "if input_or_stdin input = ''-''
            then (\<exists>temp. pre = [reconstruct_stage temp sys_stdin_buffer (2 ^ 16)])
            else pre = []"
    and dec: "prog dec = cat_name tok" "s_in dec = None"
       "args dec = (if input_or_stdin input = ''-'' then [] else [input_or_stdin input])"
    and sh: "if compress_switch_to_file_type gz bz2 xz = ''text''
            then cmds = pre @ [dec] \<and> (\<exists>f. fst (open_output e outp piped m w) = Inr (s_out dec, f))
            else (\<exists>enc. cmds = pre @ [dec, enc] \<and> s_piped dec = Some True \<and> s_out dec = None \<and>
                    prog enc = compress_switch_to_file_type gz bz2 xz \<and> args enc = [''-c''] \<and>
                    s_in enc = None \<and> (\<exists>f. fst (open_output e outp piped m w) = Inr (s_out enc, f)))"
    by blast
  have d: "decode_stages cmds = [dec]"
    using sh decode_stages_pre [OF pre] dec cat_name_decode [of tok] cstf_not_decode [of gz bz2 xz]
    by (auto simp: decode_stages_def split: if_splits)
  have t: "compress_switch_to_file_type gz bz2 xz = ''text'' \<longrightarrow>
              encode_stages cmds = [] \<and> last cmds = dec \<and>
              (\<exists>f. fst (open_output e outp piped m w) = Inr (s_out dec, f))"
    using sh decode_stages_pre [OF pre] dec cat_name_not_encode [of tok]
    by (auto simp: encode_stages_def)
  from sn d dec t show ?thesis by (auto simp: cat_name_cases)
qed

text \<open>
  Claim C7 (no passthrough shortcut).  When the sniffed type of an input equals the
  requested output type (gzip, bzip2 or xz), the pipeline that \<open>build_command_1\<close> returns
  ends with a decode stage piped into an encode stage: the decoder of that type (not
  \<open>cat\<close>) and its compressor run with \<open>-c\<close>, which writes to the output.
\<close>

theorem no_passthrough_shortcut:
  assumes "build_command_1 e input outp gz bz2 xz piped m w = (Inr cmds, w')"
    and "sniffed_file_type e input outp piped m w = Inr tok"
    and "tok = compress_switch_to_file_type gz bz2 xz"
    and "tok \<noteq> ''text''"
  shows "\<exists>pre dec enc.
           cmds = pre @ [dec, enc] \<and>
           decode_stages cmds = [dec] \<and> encode_stages cmds = [enc] \<and>
           prog dec = cat_name tok \<and> prog dec \<noteq> ''cat'' \<and> s_piped dec = Some True \<and>
           prog enc = tok \<and> args enc = [''-c''] \<and>
           (\<exists>f. fst (open_output e outp piped m w) = Inr (s_out enc, f))"
proof -
  from bc1_shape [OF assms(1)] assms(2,3,4) obtain pre dec enc where
    pre: "if input_or_stdin input = ''-''
            then (\<exists>temp. pre = [reconstruct_stage temp sys_stdin_buffer (2 ^ 16)])
            else pre = []"
    and dec: "prog dec = cat_name tok" "s_in dec = None"
    and sh: "cmds = pre @ [dec, enc]" "s_piped dec = Some True"
           "prog enc = tok" "args enc = [''-c'']"
            "(\<exists>f. fst (open_output e outp piped m w) = Inr (s_out enc, f))"
    by auto
  have d: "decode_stages cmds = [dec]"
    using sh decode_stages_pre [OF pre] dec cat_name_decode [of tok] cstf_not_decode [of gz bz2 xz] assms(3)
    by (auto simp: decode_stages_def)
  have en: "encode_stages cmds = [enc]"
    using sh decode_stages_pre [OF pre] dec cat_name_not_encode [of tok] cstf_encode [of gz bz2 xz] assms(3,4)
    by (auto simp: encode_stages_def)
  have nc: "prog dec \<noteq> ''cat''"
    using dec assms(3,4) cstf_cases [of gz bz2 xz] by (auto simp: cat_name_cases)
  from sh d en dec nc show ?thesis by blast
qed


section \<open>Instances on the concrete environment\<close>

lemma ex_installed: "installed example_env name"
  by (simp add: example_env_def)

lemma ex_stream: "streams example_world sys_stdin_buffer = ''hello'' @ [newline]"
  by (simp add: example_world_def sys_stdin_buffer_def)

text \<open>
  An instance on the concrete environment.
\<close>

theorem header_peek_round_trip_witness:
  "\<exists>header st w'.
      get_stream_header example_env sys_stdin_buffer 3 ''line'' True example_world =
        (Inr (header, Some [st]), w') \<and>
      prog st = ''cat'' \<and> num_lines header \<le> 3 \<and>
      cat_output w' st = ''hello'' @ [newline]"
proof -
  have n: "(0::int) \<le> 3" by simp
  from header_peek_round_trip [OF n ex_installed, of sys_stdin_buffer "''line''" example_world, THEN conjunct1]
  show ?thesis by (auto simp: ex_stream)
qed

lemma ex_split_gz: "py_split ''gzip compressed data'' = [''gzip'', ''compressed'', ''data'']"
  by (simp add: py_split_def is_space_def)

lemma ex_lower_gz: "py_lower ''gzip'' = ''gzip''"
  by code_simp

lemma ex_valid_gz: "utf8_valid ''gzip''"
  by code_simp

lemma ex_type_gz: "determine_file_type example_env (Named ''/tmp/out.gz'') w = Inr ''gzip''"
  by (simp add: determine_file_type_def file_brief_def example_env_def ex_split_gz ex_lower_gz
        py_decode_def ex_valid_gz)

lemma ex_open_ok: "p \<noteq> ''/nodir/out'' \<Longrightarrow> open_error example_env p m w = None"
  by (simp add: example_env_def)

lemma ex_bc1_text_out:
  "p \<noteq> [] \<Longrightarrow> p \<noteq> ''-'' \<Longrightarrow> p \<noteq> ''/tmp/out.gz'' \<Longrightarrow> q \<noteq> [] \<Longrightarrow> q \<noteq> ''/nodir/out'' \<Longrightarrow>
   build_command_1 example_env (Some p) (Some q) False False False False m w =
     (Inr (tail_stages (Command ''cat'') [p] None (Some (File (FileObj (length (opened w)) q m)))
             (Some 65536) (Some (FileObj (length (opened w)) q m)) False),
      snd (py_open example_env q m w))"
  by (simp add: build_command_1_def input_or_stdin_def open_output_cases output_path_def py_open_def
       ex_open_ok compress_switch_to_file_type_def
       ex_compress_text ex_type_text get_cat_command_def cat_name_cases
       ex_getattr get_buf_sizes_def ex_bake_ok Let_def)

lemma ex_bc1_gz:
  "build_command_1 example_env (Some ''/tmp/out.gz'') None True False False False m w =
     (Inr (tail_stages (Command ''zcat'') [''/tmp/out.gz''] (Some (Command ''gzip'')) (Some Stdout_buffer)
             (Some 65536) None False), w)"
  by (simp add: build_command_1_def input_or_stdin_def open_output_def compress_switch_to_file_type_def
       ex_compress_gzip ex_type_gz get_cat_command_def cat_name_cases
       ex_getattr get_buf_sizes_def ex_bake_ok Let_def)

lemma ex_build_two:
  "\<exists>cmds w'. build_command example_env [''/tmp/file1'', ''/tmp/file2''] (Some ''/tmp/o'') False False False
          example_world = (Inr cmds, [''/tmp/file1'', ''/tmp/file2''], w')"
  by (simp add: build_command_def ex_bc1_text_out Let_def)

text \<open>
  An instance on the concrete environment.
\<close>

theorem output_write_mode_law_witness:
  "\<exists>cmds w'.
      build_command example_env [''/tmp/file1'', ''/tmp/file2''] (Some ''/tmp/o'') False False False
          example_world = (Inr cmds, [''/tmp/file1'', ''/tmp/file2''], w') \<and>
      opened w' = [(''/tmp/o'', ''wb''), (''/tmp/o'', ''ab'')] \<and>
      sink_modes cmds = [''wb'', ''ab'']"
proof -
  from ex_build_two obtain cmds w' where
    b: "build_command example_env [''/tmp/file1'', ''/tmp/file2''] (Some ''/tmp/o'') False False False
          example_world = (Inr cmds, [''/tmp/file1'', ''/tmp/file2''], w')"
    by blast
  have p: "output_path (Some ''/tmp/o'') False = Some ''/tmp/o''"
    by (simp add: output_path_def)
  have o: "opened example_world = []" by (simp add: example_world_def)
  from output_write_mode_law [OF b] p o have
    "opened w' = [(''/tmp/o'', ''wb''), (''/tmp/o'', ''ab'')] \<and> sink_modes cmds = [''wb'', ''ab'']"
    by (auto simp: numeral_2_eq_2)
  with b show ?thesis by blast
qed

lemma ex_sniff_file1:
  "sniffed_file_type example_env (Some ''/tmp/file1'') None False ''wb'' example_world = Inr ''ascii''"
  by (simp add: sniffed_file_type_def open_output_def input_or_stdin_def ex_type_text)

lemma ex_bc1_file1:
  "build_command_1 example_env (Some ''/tmp/file1'') None False False False False ''wb'' example_world =
     (Inr (tail_stages (Command ''cat'') [''/tmp/file1''] None (Some Stdout_buffer) (Some 65536) None False),
      example_world)"
  by (simp add: ex_bc1_text)

text \<open>
  Claim C4 as stated fails: the pipeline built for a text file consists of one stage that
  runs \<open>cat\<close> on the file and writes to the output; it is a decode stage, and the source
  does not feed the output directly.
\<close>

theorem text_pipeline_has_decode_stage:
  "sniffed_file_type example_env (Some ''/tmp/file1'') None False ''wb'' example_world = Inr ''ascii''
   \<and> (\<exists>st. fst (build_command_1 example_env (Some ''/tmp/file1'') None False False False False ''wb''
                  example_world) = Inr [st]
          \<and> decode_stages [st] = [st] \<and> prog st = ''cat'' \<and> args st = [''/tmp/file1'']
          \<and> s_out st = Some Stdout_buffer)"
  by (simp add: ex_sniff_file1 ex_bc1_file1 tail_stages_def bake_def decode_stages_def
        decode_programs_def)

text \<open>
  An instance on the concrete environment.
\<close>

theorem decode_stage_always_present_witness:
  "\<exists>dec. decode_stages (tail_stages (Command ''cat'') [''/tmp/file1''] None (Some Stdout_buffer)
                          (Some 65536) None False) = [dec]
        \<and> prog dec = ''cat'' \<and> args dec = [''/tmp/file1'']"
  using decode_stage_always_present [OF ex_bc1_file1] ex_sniff_file1
  by (auto simp: input_or_stdin_def)

lemma ex_sniff_gz:
  "sniffed_file_type example_env (Some ''/tmp/out.gz'') None False ''wb'' example_world = Inr ''gzip''"
  by (simp add: sniffed_file_type_def open_output_def input_or_stdin_def ex_type_gz)

text \<open>
  An instance on the concrete environment.
\<close>

theorem no_passthrough_shortcut_witness:
  "\<exists>pre dec enc.
      tail_stages (Command ''zcat'') [''/tmp/out.gz''] (Some (Command ''gzip'')) (Some Stdout_buffer)
             (Some 65536) None False = pre @ [dec, enc] \<and>
      prog dec = ''zcat'' \<and> prog enc = ''gzip'' \<and> args enc = [''-c'']"
proof -
  have t: "''gzip'' = compress_switch_to_file_type True False False"
    by (simp add: compress_switch_to_file_type_def)
  have n: "''gzip'' \<noteq> ''text''" by simp
  from no_passthrough_shortcut [OF ex_bc1_gz ex_sniff_gz t n] show ?thesis
    by (auto simp: cat_name_cases)
qed


section \<open>Further instances\<close>

text \<open>
  An instance on the concrete environment.
\<close>

theorem classification_fallback_witness:
  "determine_file_type example_env (Named ''/tmp/file1'') example_world = Inr ''ascii''
   \<and> get_cat_command example_env ''ascii'' = Inr (Command ''cat'')"
proof -
  have h: "file_brief example_env (Named ''/tmp/file1'') example_world = Inr ''ASCII text''"
    by (simp add: ex_file_path)
  have v: "spec_first_word ''ASCII text'' \<noteq> [] \<and> utf8_valid (py_lower (spec_first_word ''ASCII text''))"
    unfolding ex_first_word ex_lower using ex_valid by simp
  have "determine_file_type example_env (Named ''/tmp/file1'') example_world =
       Inr (py_lower (spec_first_word ''ASCII text''))"
    by (rule classification_fallback [OF h, THEN conjunct2, THEN mp, OF v])
  then have d: "determine_file_type example_env (Named ''/tmp/file1'') example_world = Inr ''ascii''"
    unfolding ex_first_word ex_lower .
  have ne: "''ascii'' \<noteq> ''gzip'' \<and> ''ascii'' \<noteq> ''bzip2'' \<and> ''ascii'' \<noteq> ''xz'' \<and> ''ascii'' \<noteq> ''text''"
    by simp
  note a = classification_fallback [OF h, THEN conjunct1, THEN spec, of "''ascii''", THEN mp, OF d]
  have g: "get_cat_command example_env ''ascii'' = Inr (Command ''cat'')"
    by (rule a [THEN conjunct2, THEN mp, OF ne, THEN conjunct2, THEN mp, OF ex_installed])
  from d g show ?thesis by (rule conjI)
qed

text \<open>
  An instance on the concrete environment.
\<close>

theorem empty_inputs_default_witness:
  "build_command example_env [] None False False False example_world =
     build_command example_env [''-''] None False False False example_world"
  by (rule empty_inputs_default [THEN conjunct1])

text \<open>
  An instance on the concrete environment.
\<close>

theorem inputs_list_mutation_witness:
  "fst (snd (build_command example_env [] None False False False example_world)) = [''-'']
   \<and> fst (snd (build_command example_env [''/tmp/file1''] None False False False example_world)) =
        [''/tmp/file1'']
   \<and> build_command_inputs
          (snd (build_command_omitted example_env None False False False
                 (snd (build_command_omitted example_env None False False False example_world)))) =
        [''-'']"
proof -
  have d: "build_command_inputs example_world = []" by (simp add: example_world_def)
  have 1: "fst (snd (build_command example_env [] None False False False example_world)) = [''-'']"
    using inputs_list_mutation [of example_env "[]" None False False False example_world, THEN conjunct1]
    by simp
  have 2: "fst (snd (build_command example_env [''/tmp/file1''] None False False False example_world)) =
        [''/tmp/file1'']"
    using inputs_list_mutation [of example_env "[''/tmp/file1'']" None False False False example_world, THEN conjunct1]
    by simp
  have 3: "build_command_inputs
          (snd (build_command_omitted example_env None False False False
                 (snd (build_command_omitted example_env None False False False example_world)))) =
        [''-'']"
    by (rule inputs_list_mutation [of example_env "[]" None False False False example_world None False False False,
        THEN conjunct2, THEN conjunct2, THEN conjunct1, THEN mp, OF d, THEN conjunct2])
  from 1 2 3 show ?thesis by (intro conjI)
qed

end
